theory Spec2Isabelle
  imports Complex_Main
begin

section \<open>Parameter-name recovery (the acorn-based utility)\<close>

text \<open>
  The utility parses the source text of a function or class with acorn and walks the
  resulting ESTree. The parser is an external library: the model starts from the tree it
  returns. Only the node kinds and fields that the utility inspects are kept.

  A parameter of a function is an ESTree pattern. \<open>Identifier\<close> is the only pattern
  that has a \<open>name\<close> field; \<open>AssignmentPattern\<close> carries its \<open>left\<close>,
  \<open>RestElement\<close> its \<open>argument\<close> and \<open>MemberExpression\<close> its \<open>property\<close>.
\<close>

datatype pattern =
    Identifier string
  | AssignmentPattern pattern
  | RestElement pattern
  | MemberExpression pattern
  | ObjectPattern
  | ArrayPattern
  | Literal

fun pattern_type :: "pattern \<Rightarrow> string" where
  "pattern_type (Identifier n) = ''Identifier''"
| "pattern_type (AssignmentPattern l) = ''AssignmentPattern''"
| "pattern_type (RestElement a) = ''RestElement''"
| "pattern_type (MemberExpression p) = ''MemberExpression''"
| "pattern_type ObjectPattern = ''ObjectPattern''"
| "pattern_type ArrayPattern = ''ArrayPattern''"
| "pattern_type Literal = ''Literal''"

datatype method_kind = Constructor | Method | Getter | Setter

text \<open>
  Statement-level nodes. A \<open>MethodDefinition\<close> holds its kind and its \<open>value\<close>, a
  function node. \<open>OtherNode\<close> stands for every node that is neither a function nor a
  class (an \<open>ExpressionStatement\<close> holding an arrow function, for instance).
\<close>

datatype node =
    FunctionDeclaration "pattern list"
  | FunctionExpression "pattern list"
  | ClassDeclaration "class_element list"
  | OtherNode
and class_element =
    MethodDefinition method_kind node
  | OtherElement

datatype js_error = TypeError

text \<open>The console is the list of messages written so far, oldest first.\<close>

type_synonym console = "string list"

definition console_warn :: "string \<Rightarrow> console \<Rightarrow> console" where
  "console_warn msg con = con @ [msg]"

fun getDestructuredParameterName :: "pattern \<Rightarrow> string option" where
  "getDestructuredParameterName (Identifier n) = Some n"
| "getDestructuredParameterName (MemberExpression p) = getDestructuredParameterName p"
| "getDestructuredParameterName _ = None"

fun getRestParameterName :: "pattern \<Rightarrow> string option" where
  "getRestParameterName (Identifier n) = Some n"
| "getRestParameterName _ = None"

text \<open>
  The callback that \<open>traverse\<close> maps over \<open>node.params\<close>: the name (or \<open>null\<close>,
  here \<open>None\<close>) recovered for one parameter, and the console after it. The branches
  are in the order of the source; the test \<open>param.type === 'Identifier'\<close> of the
  source comes after the \<open>typeof param.name === 'string'\<close> test, which every
  identifier already passes.
\<close>

fun traverse_param :: "pattern \<Rightarrow> console \<Rightarrow> string option \<times> console" where
  "traverse_param (Identifier n) con = (Some n, con)"
| "traverse_param (AssignmentPattern l) con = (getDestructuredParameterName l, con)"
| "traverse_param (RestElement a) con = (getRestParameterName a, con)"
| "traverse_param p con =
     (None, console_warn (''Unknown parameter type: '' @ pattern_type p) con)"

text \<open>\<open>Array.prototype.map\<close> with a callback that writes to the console.\<close>

fun map_params :: "pattern list \<Rightarrow> console \<Rightarrow> string option list \<times> console" where
  "map_params [] con = ([], con)"
| "map_params (p # ps) con =
     (case traverse_param p con of
        (r, con') \<Rightarrow> (case map_params ps con' of (rs, con'') \<Rightarrow> (r # rs, con'')))"

text \<open>\<open>traverse\<close> returns \<open>null\<close> (the outer \<open>None\<close>) for a node that is not a function.\<close>

fun traverse :: "node \<Rightarrow> console \<Rightarrow> string option list option \<times> console" where
  "traverse (FunctionDeclaration ps) con =
     (case map_params ps con of (rs, con') \<Rightarrow> (Some rs, con'))"
| "traverse (FunctionExpression ps) con =
     (case map_params ps con of (rs, con') \<Rightarrow> (Some rs, con'))"
| "traverse _ con = (None, con)"

text \<open>\<open>(parameters || []).filter(param => param !== null)\<close>\<close>

definition remove_nulls :: "string option list option \<Rightarrow> string list" where
  "remove_nulls parameters =
     (case parameters of
        None \<Rightarrow> []
      | Some rs \<Rightarrow> map the (filter (\<lambda>r. r \<noteq> None) rs))"

text \<open>
  \<open>getFunctionParams\<close> on the body of the parsed program. \<open>ast.body[0]\<close> of an empty
  program is \<open>undefined\<close>, and reading \<open>node.type\<close> of it is a \<open>TypeError\<close>.
\<close>

definition getFunctionParams :: "node list \<Rightarrow> console \<Rightarrow> (js_error + string list) \<times> console" where
  "getFunctionParams body con =
     (case body of
        [] \<Rightarrow> (Inl TypeError, con)
      | n # _ \<Rightarrow> (case traverse n con of (ps, con') \<Rightarrow> (Inr (remove_nulls ps), con')))"

text \<open>
  \<open>Array.prototype.find\<close> with the predicate
  \<open>x.type === 'MethodDefinition' && x.kind === 'constructor'\<close>.
\<close>

fun is_constructor_method :: "class_element \<Rightarrow> bool" where
  "is_constructor_method (MethodDefinition k v) = (k = Constructor)"
| "is_constructor_method OtherElement = False"

fun find_constructor :: "class_element list \<Rightarrow> class_element option" where
  "find_constructor [] = None"
| "find_constructor (x # xs) = (if is_constructor_method x then Some x else find_constructor xs)"

text \<open>
  \<open>getClassConstructorParams\<close>. The expression
  \<open>ast.body[0].body.body.find(...).value\<close> reads \<open>value\<close> of whatever \<open>find\<close>
  returns; when \<open>find\<close> returns \<open>undefined\<close> that read is a \<open>TypeError\<close>. For a
  first statement that is a function, \<open>body.body\<close> is its list of statements, none of
  which is a \<open>MethodDefinition\<close>, so \<open>find\<close> returns \<open>undefined\<close> as well; for any
  other statement one of the reads on the way fails.
\<close>

definition getClassConstructorParams :: "node list \<Rightarrow> console \<Rightarrow> (js_error + string list) \<times> console" where
  "getClassConstructorParams body con =
     (case body of
        ClassDeclaration members # _ \<Rightarrow>
          (case find_constructor members of
             Some (MethodDefinition k v) \<Rightarrow>
               (case traverse v con of (ps, con') \<Rightarrow> (Inr (remove_nulls ps), con'))
           | _ \<Rightarrow> (Inl TypeError, con))
      | _ \<Rightarrow> (Inl TypeError, con))"

text \<open>
  A parameter whose syntactic shape \<open>traverse\<close> does not recognise: it has no
  \<open>name\<close>, and its type is none of \<open>AssignmentPattern\<close>, \<open>RestElement\<close>,
  \<open>Identifier\<close>. These are the parameters that reach the branch the source marks
  "Unknown parameter type".
\<close>

fun unknown_parameter_type :: "pattern \<Rightarrow> bool" where
  "unknown_parameter_type (Identifier n) = False"
| "unknown_parameter_type (AssignmentPattern l) = False"
| "unknown_parameter_type (RestElement a) = False"
| "unknown_parameter_type _ = True"

text \<open>A class has an explicit constructor when one of its members is a constructor method.\<close>

definition has_explicit_constructor :: "class_element list \<Rightarrow> bool" where
  "has_explicit_constructor members = list_ex is_constructor_method members"


section \<open>The Engine component\<close>

text \<open>
  The component talks to external collaborators only: the 3D engine, the scene, the
  physics and XR subsystems, the DOM and the reconciler. Their objects are opaque to the
  component, so the model names each object by the constructor call that made it, and
  records every call on a collaborator as an event of a trace, in the order the calls are
  made. Option bags, React components and callbacks that the component only passes on are
  named by a label.
\<close>

type_synonym canvas = string
type_synonym engine_options = string
type_synonym scene_options = string
type_synonym xr_options = string
type_synonym loader = string
type_synonym scene_callback = string
type_synonym react_node = string
type_synonym camera = string
type_synonym host_instance = string
type_synonym havok_module = string
type_synonym xr_experience = string

datatype vector3 = Vector3 real real real

datatype physics_plugin = CallerPlugin string | HavokPlugin bool havok_module

datatype babylon_engine =
  BabylonEngine canvas "bool option" "engine_options option" "bool option"

datatype scene = Scene babylon_engine "scene_options option"

datatype gui3d_manager = GUI3DManager scene

datatype loading_screen = CustomLoadingScreen canvas loader

subsection \<open>Props\<close>

record engine_props =
  canvasId :: string
  antialias :: "bool option"
  engineOptions :: "engine_options option"
  adaptToDeviceRatio :: "bool option"
  loader :: "loader option"

record physics_options =
  gravity :: "vector3 option"
  plugin :: "physics_plugin option"

record scene_props =
  sceneOptions :: "scene_options option"
  isInteractiveInspector :: "bool option"
  onSceneReady :: "scene_callback option"
  isGui3DManager :: "bool option"
  xrDefaultExperienceOptions :: "xr_options option"
  physicsOptions :: "physics_options option"

record component_props =
  engineProps :: engine_props
  sceneProps :: "scene_props option"
  children :: react_node

text \<open>
  The destructuring \<open>const { ... } = sceneProps || {}\<close>: a field of an absent
  \<open>sceneProps\<close> is \<open>undefined\<close>, and the two flags have defaults.
\<close>

definition scene_prop :: "(scene_props \<Rightarrow> 'a option) \<Rightarrow> component_props \<Rightarrow> 'a option" where
  "scene_prop field p = (case sceneProps p of None \<Rightarrow> None | Some s \<Rightarrow> field s)"

definition with_default :: "'a \<Rightarrow> 'a option \<Rightarrow> 'a" where
  "with_default d v = (case v of None \<Rightarrow> d | Some x \<Rightarrow> x)"

subsection \<open>Contexts, the element tree and the root container\<close>

record engine_canvas_context =
  context_engine :: "babylon_engine option"
  context_canvas :: "canvas option"

record scene_context =
  context_scene :: "scene option"
  sceneReady :: bool
  xrExperience :: "xr_experience option"

datatype element =
    Children react_node
  | EngineCanvasContext_Provider engine_canvas_context element
  | SceneContext_Provider scene_context element

record instance_metadata =
  metadata_children :: "host_instance list"
  gui3DManager :: "gui3d_manager option"

record root_instance =
  hostInstance :: scene
  metadata :: instance_metadata
  parent :: "host_instance option"

record root_container =
  container_scene :: scene
  rootInstance :: root_instance

subsection \<open>Events, state and environment\<close>

datatype event =
    Engine_new babylon_engine
  | Engine_set_loadingScreen babylon_engine loading_screen
  | Engine_runRenderLoop babylon_engine
  | Window_addEventListener string
  | Scene_new scene
  | OnSceneReady scene_callback scene
  | HavokPhysics_call "string \<Rightarrow> string"
  | Scene_enablePhysics scene vector3 physics_plugin
  | Scene_createDefaultXRExperienceAsync scene xr_options
  | Document_addEventListener string
  | GUI3DManager_new gui3d_manager
  | Reactylon_render "element option" "root_container option"
  | Window_removeEventListener string
  | Engine_dispose babylon_engine
  | Console_warn string
  | Scene_render scene

text \<open>The four refs of the component, and the trace of calls made so far.\<close>

record component_state =
  canvasRef :: "canvas option"
  engineRef :: "babylon_engine option"
  sceneRef :: "scene option"
  rootContainerRef :: "root_container option"
  trace :: "event list"

text \<open>
  How the two awaited promises settle is decided outside the component: the load of the
  Havok module, and the negotiation of the XR experience.
\<close>

datatype 'a settled = Fulfilled 'a | Rejected string

record environment =
  HavokPhysics :: "havok_module settled"
  createDefaultXRExperienceAsync :: "xr_experience settled"

datatype init_value = Undefined | Cleanup

definition emit :: "event \<Rightarrow> component_state \<Rightarrow> component_state" where
  "emit e st = st\<lparr>trace := trace st @ [e]\<rparr>"

text \<open>The events a run added to the trace.\<close>

definition new_events :: "component_state \<Rightarrow> component_state \<Rightarrow> event list" where
  "new_events st st' = drop (length (trace st)) (trace st')"

subsection \<open>The render loop\<close>

text \<open>
  What the callback reads of a scene of \<open>engine.scenes\<close>: its active camera and its
  camera list (read with \<open>?.\<close>, so it may be absent).
\<close>

record scene_view =
  view_scene :: scene
  activeCamera :: "camera option"
  cameras :: "camera list option"

text \<open>\<open>scene.cameras?.length > 0\<close>: \<open>undefined > 0\<close> is false.\<close>

definition has_cameras :: "scene_view \<Rightarrow> bool" where
  "has_cameras s = (case cameras s of None \<Rightarrow> False | Some cs \<Rightarrow> length cs > 0)"

text \<open>
  The body of the \<open>forEach\<close> callback: two separate \<open>if\<close> statements. The model
  records the call of \<open>scene.render()\<close>; what the engine does inside it (it throws
  when the scene has no active camera, as the comment in the source says) is not modelled.
\<close>

definition render_scene :: "scene_view \<Rightarrow> component_state \<Rightarrow> component_state" where
  "render_scene s st =
     (let st1 = (if activeCamera s = None then emit (Console_warn ''no active camera..'') st else st);
          st2 = (if has_cameras s then emit (Scene_render (view_scene s)) st1 else st1)
      in st2)"

fun forEach_scene :: "scene_view list \<Rightarrow> component_state \<Rightarrow> component_state" where
  "forEach_scene [] st = st"
| "forEach_scene (s # ss) st = forEach_scene ss (render_scene s st)"

text \<open>
  The callback given to \<open>runRenderLoop\<close>. \<open>scenes_of\<close> is the engine's own list of
  scenes at this frame; \<open>engine.current!\<close> is a read of the ref.
\<close>

definition renderLoop_callback ::
  "(babylon_engine \<Rightarrow> scene_view list) \<Rightarrow> component_state \<Rightarrow> component_state \<times> js_error option" where
  "renderLoop_callback scenes_of st =
     (case engineRef st of
        None \<Rightarrow> (st, Some TypeError)
      | Some e \<Rightarrow> (forEach_scene (scenes_of e) st, None))"

subsection \<open>initializeScene\<close>

text \<open>
  The model follows the source section by section. It runs \<open>initializeScene\<close> alone:
  no other task runs while it is suspended at an \<open>await\<close>, so \<open>engine.current\<close> and
  \<open>scene.current\<close> hold the objects just stored there. Constructors and calls on
  collaborators return normally; the two awaited promises may be rejected, and a
  rejection ends the run with the effects made so far in place.

  The sections for physics, XR and the inspector write no ref: each is the list of the
  calls it makes, in order, with its result.
\<close>

definition emits :: "event list \<Rightarrow> component_state \<Rightarrow> component_state" where
  "emits evs st = st\<lparr>trace := trace st @ evs\<rparr>"

text \<open>\<open>new BabylonEngine(canvasRef.current, antialias, engineOptions, adaptToDeviceRatio)\<close>\<close>

definition new_engine :: "component_props \<Rightarrow> canvas \<Rightarrow> babylon_engine" where
  "new_engine p cv =
     BabylonEngine cv (antialias (engineProps p)) (engineOptions (engineProps p))
       (adaptToDeviceRatio (engineProps p))"

text \<open>\<open>new Scene(engine.current, sceneOptions)\<close>\<close>

definition new_scene :: "component_props \<Rightarrow> babylon_engine \<Rightarrow> scene" where
  "new_scene p e = Scene e (scene_prop sceneOptions p)"

definition engine_section :: "component_props \<Rightarrow> canvas \<Rightarrow> component_state \<Rightarrow> babylon_engine \<times> component_state" where
  "engine_section p cv st =
     (let e = new_engine p cv;
          st1 = emit (Engine_new e) (st\<lparr>engineRef := Some e\<rparr>);
          st2 = (case loader (engineProps p) of
                   None \<Rightarrow> st1
                 | Some l \<Rightarrow> emit (Engine_set_loadingScreen e (CustomLoadingScreen cv l)) st1);
          st3 = emit (Engine_runRenderLoop e) st2;
          st4 = emit (Window_addEventListener ''resize'') st3
      in (e, st4))"

definition scene_section :: "component_props \<Rightarrow> babylon_engine \<Rightarrow> component_state \<Rightarrow> scene \<times> component_state" where
  "scene_section p e st =
     (let sc = new_scene p e;
          st1 = emit (Scene_new sc) (st\<lparr>sceneRef := Some sc\<rparr>);
          st2 = (case scene_prop onSceneReady p of
                   None \<Rightarrow> st1
                 | Some cb \<Rightarrow> emit (OnSceneReady cb sc) st1)
      in (sc, st2))"

definition locateFile :: "string \<Rightarrow> string" where
  "locateFile file = ''https://preview.babylonjs.com/havok/'' @ file"

definition defaultGravity :: vector3 where
  "defaultGravity = Vector3 0 (- 9.8) 0"

text \<open>
  \<open>scene.current.enablePhysics(gravity || default, plugin || new HavokPlugin(true,
  await HavokPhysics({locateFile})))\<close>: the arguments are evaluated left to right, so the
  module is requested, and awaited, before \<open>enablePhysics\<close> is called. The second
  component of the result is the reason of a rejection.
\<close>

definition enable_physics ::
  "physics_options option \<Rightarrow> environment \<Rightarrow> scene \<Rightarrow> event list \<times> string option" where
  "enable_physics po env sc =
     (case po of
        None \<Rightarrow> ([], None)
      | Some opts \<Rightarrow>
          (let g = with_default defaultGravity (gravity opts) in
           case plugin opts of
             Some pl \<Rightarrow> ([Scene_enablePhysics sc g pl], None)
           | None \<Rightarrow>
               (case HavokPhysics env of
                  Rejected r \<Rightarrow> ([HavokPhysics_call locateFile], Some r)
                | Fulfilled m \<Rightarrow>
                    ([HavokPhysics_call locateFile,
                      Scene_enablePhysics sc g (HavokPlugin True m)], None))))"

text \<open>
  \<open>let xrExperience = null; if (options) xrExperience = await
  scene.current.createDefaultXRExperienceAsync(options)\<close>.
\<close>

definition enable_xr ::
  "xr_options option \<Rightarrow> environment \<Rightarrow> scene \<Rightarrow> event list \<times> xr_experience option settled" where
  "enable_xr xo env sc =
     (case xo of
        None \<Rightarrow> ([], Fulfilled None)
      | Some opts \<Rightarrow>
          (case createDefaultXRExperienceAsync env of
             Rejected r \<Rightarrow> ([Scene_createDefaultXRExperienceAsync sc opts], Rejected r)
           | Fulfilled x \<Rightarrow> ([Scene_createDefaultXRExperienceAsync sc opts], Fulfilled (Some x))))"

definition enable_inspector :: "bool \<Rightarrow> event list" where
  "enable_inspector flag = (if flag then [Document_addEventListener ''keydown''] else [])"

text \<open>The object literal assigned to \<open>rootContainer.current\<close>.\<close>

definition new_root_container :: "bool \<Rightarrow> scene \<Rightarrow> root_container" where
  "new_root_container gui sc =
     \<lparr>container_scene = sc,
      rootInstance =
        \<lparr>hostInstance = sc,
         metadata = \<lparr>metadata_children = [],
                     gui3DManager = (if gui then Some (GUI3DManager sc) else None)\<rparr>,
         parent = None\<rparr>\<rparr>"

text \<open>The element given to \<open>Reactylon.render\<close>: the two providers around the children.\<close>

definition provider_tree :: "engine_canvas_context \<Rightarrow> scene_context \<Rightarrow> react_node \<Rightarrow> element" where
  "provider_tree ec sx ch =
     EngineCanvasContext_Provider ec (SceneContext_Provider sx (Children ch))"

definition reconciler_section ::
  "component_props \<Rightarrow> scene \<Rightarrow> xr_experience option \<Rightarrow> component_state \<Rightarrow> component_state" where
  "reconciler_section p sc xr st =
     (let gui = with_default True (scene_prop isGui3DManager p);
          st1 = (if gui then emit (GUI3DManager_new (GUI3DManager sc)) st else st);
          st2 = st1\<lparr>rootContainerRef := Some (new_root_container gui sc)\<rparr>;
          tree = provider_tree
                   \<lparr>context_engine = engineRef st2, context_canvas = canvasRef st2\<rparr>
                   \<lparr>context_scene = sceneRef st2, sceneReady = True, xrExperience = xr\<rparr>
                   (children p)
      in emit (Reactylon_render (Some tree) (rootContainerRef st2)) st2)"

text \<open>
  The promise \<open>initializeScene()\<close> returns: fulfilled with \<open>undefined\<close> when there is
  no canvas, fulfilled with the cleanup closure after the mount, or rejected.
\<close>

definition initializeScene ::
  "component_props \<Rightarrow> environment \<Rightarrow> component_state \<Rightarrow> component_state \<times> init_value settled" where
  "initializeScene p env st =
     (case canvasRef st of
        None \<Rightarrow> (st, Fulfilled Undefined)
      | Some cv \<Rightarrow>
          (case engine_section p cv st of (e, st1) \<Rightarrow>
          (case scene_section p e st1 of (sc, st2) \<Rightarrow>
          (case enable_physics (scene_prop physicsOptions p) env sc of
             (physics, Some r) \<Rightarrow> (emits physics st2, Rejected r)
           | (physics, None) \<Rightarrow>
               (let st3 = emits physics st2 in
                case enable_xr (scene_prop xrDefaultExperienceOptions p) env sc of
                  (xr, Rejected r) \<Rightarrow> (emits xr st3, Rejected r)
                | (xr, Fulfilled experience) \<Rightarrow>
                    (let st4 = emits xr st3;
                         st5 = emits (enable_inspector
                                 (with_default False (scene_prop isInteractiveInspector p))) st4
                     in (reconciler_section p sc experience st5, Fulfilled Cleanup)))))))"

text \<open>
  The closure that \<open>initializeScene\<close> returns. \<open>engine.current!.dispose()\<close> reads the
  ref; \<open>rootContainer.current!\<close> is passed on as it is.
\<close>

definition cleanup :: "component_state \<Rightarrow> component_state \<times> js_error option" where
  "cleanup st =
     (let st1 = emit (Window_removeEventListener ''resize'') st in
      case engineRef st1 of
        None \<Rightarrow> (st1, Some TypeError)
      | Some e \<Rightarrow>
          (let st2 = emit (Engine_dispose e) st1;
               st3 = emit (Reactylon_render None (rootContainerRef st2)) st2
           in (st3\<lparr>rootContainerRef := None\<rparr>, None)))"

text \<open>
  The effect callback calls \<open>initializeScene()\<close> and drops the promise: it returns
  nothing itself, so the second component (the cleanup the effect hands to React) is
  always absent.
\<close>

definition effect_callback ::
  "component_props \<Rightarrow> environment \<Rightarrow> component_state \<Rightarrow> component_state \<times> init_value option" where
  "effect_callback p env st = (fst (initializeScene p env st), None)"

text \<open>
  The teardown of the component. When the component is unmounted, React calls the
  function that the effect callback returned, if it returned one; \<open>returned\<close> is
  what the effect callback returned.
\<close>

definition unmount ::
  "init_value option \<Rightarrow> component_state \<Rightarrow> component_state \<times> js_error option" where
  "unmount returned st = (case returned of Some Cleanup \<Rightarrow> cleanup st | _ \<Rightarrow> (st, None))"


section \<open>Notions used in the statements\<close>

text \<open>
  The stage of \<open>initializeScene\<close> that makes a call: 0 for the engine section and the
  construction of the scene, 1 for the scene-ready callback, 2 for physics, 3 for XR, 4
  for the inspector, 5 and 6 for the root container and the mount.
\<close>

fun stage :: "event \<Rightarrow> nat" where
  "stage (OnSceneReady cb sc) = 1"
| "stage (HavokPhysics_call f) = 2"
| "stage (Scene_enablePhysics sc g pl) = 2"
| "stage (Scene_createDefaultXRExperienceAsync sc xo) = 3"
| "stage (Document_addEventListener k) = 4"
| "stage (GUI3DManager_new g) = 5"
| "stage (Reactylon_render t rc) = 6"
| "stage _ = 0"

text \<open>Kinds of events.\<close>

fun is_scene_ready :: "event \<Rightarrow> bool" where
  "is_scene_ready (OnSceneReady cb sc) = True"
| "is_scene_ready _ = False"

fun is_physics :: "event \<Rightarrow> bool" where
  "is_physics (HavokPhysics_call f) = True"
| "is_physics (Scene_enablePhysics sc g pl) = True"
| "is_physics _ = False"

fun is_xr :: "event \<Rightarrow> bool" where
  "is_xr (Scene_createDefaultXRExperienceAsync sc xo) = True"
| "is_xr _ = False"

fun is_render :: "event \<Rightarrow> bool" where
  "is_render (Reactylon_render t rc) = True"
| "is_render _ = False"

text \<open>
  \<open>precedes P Q tr\<close>: in the trace \<open>tr\<close>, no \<open>P\<close>-event comes after a \<open>Q\<close>-event,
  that is, every \<open>P\<close>-event comes before every \<open>Q\<close>-event.
\<close>

fun precedes :: "('a \<Rightarrow> bool) \<Rightarrow> ('a \<Rightarrow> bool) \<Rightarrow> 'a list \<Rightarrow> bool" where
  "precedes P Q [] = True"
| "precedes P Q (x # xs) = ((\<not> Q x \<or> \<not> list_ex P xs) \<and> precedes P Q xs)"

text \<open>
  The context snapshots an event publishes: the values of the two providers of a tree
  given to \<open>Reactylon.render\<close>.
\<close>

fun published :: "event \<Rightarrow> (engine_canvas_context \<times> scene_context) option" where
  "published (Reactylon_render (Some (EngineCanvasContext_Provider ec (SceneContext_Provider sx ch))) rc) = Some (ec, sx)"
| "published _ = None"

definition snapshots :: "event list \<Rightarrow> (engine_canvas_context \<times> scene_context) list" where
  "snapshots tr = List.map_filter published tr"

text \<open>The calls of a run after the XR section: inspector, GUI manager, render.\<close>

definition mount_events :: "component_props \<Rightarrow> canvas \<Rightarrow> xr_experience option \<Rightarrow> event list" where
  "mount_events p cv x =
     (let e = new_engine p cv; sc = new_scene p e;
          gui = with_default True (scene_prop isGui3DManager p)
      in enable_inspector (with_default False (scene_prop isInteractiveInspector p)) @
         (if gui then [GUI3DManager_new (GUI3DManager sc)] else []) @
         [Reactylon_render
            (Some (provider_tree
                     \<lparr>context_engine = Some e, context_canvas = Some cv\<rparr>
                     \<lparr>context_scene = Some sc, sceneReady = True, xrExperience = x\<rparr>
                     (children p)))
            (Some (new_root_container gui sc))])"

text \<open>The events of a run with a canvas, section by section.\<close>

definition run_events :: "component_props \<Rightarrow> environment \<Rightarrow> canvas \<Rightarrow> event list" where
  "run_events p env cv =
     (let sc = new_scene p (new_engine p cv);
          physics = enable_physics (scene_prop physicsOptions p) env sc;
          xr = enable_xr (scene_prop xrDefaultExperienceOptions p) env sc
      in Scene_new sc #
         (case scene_prop onSceneReady p of None \<Rightarrow> [] | Some cb \<Rightarrow> [OnSceneReady cb sc]) @
         fst physics @
         (case snd physics of
            Some r \<Rightarrow> []
          | None \<Rightarrow>
              fst xr @
              (case snd xr of
                 Rejected r \<Rightarrow> []
               | Fulfilled x \<Rightarrow> mount_events p cv x)))"


section \<open>Concrete configurations\<close>

text \<open>
  The scenario of the specification: canvas \<open>c1\<close>, antialiasing on, no scene, physics
  or XR options; and a configuration that uses every option, with physics options that
  give neither gravity nor plugin.
\<close>

definition idle_state :: component_state where
  "idle_state = \<lparr>canvasRef = Some ''c1'', engineRef = None, sceneRef = None,
                  rootContainerRef = None, trace = []\<rparr>"

definition detached_state :: component_state where
  "detached_state = \<lparr>canvasRef = None, engineRef = None, sceneRef = None,
                      rootContainerRef = None, trace = []\<rparr>"

definition bare_props :: component_props where
  "bare_props = \<lparr>engineProps = \<lparr>canvasId = ''c1'', antialias = Some True, engineOptions = None,
                                 adaptToDeviceRatio = None, loader = None\<rparr>,
                  sceneProps = None, children = ''ui''\<rparr>"

definition full_props :: component_props where
  "full_props = \<lparr>engineProps = \<lparr>canvasId = ''c1'', antialias = Some True, engineOptions = None,
                                 adaptToDeviceRatio = None, loader = Some ''spinner''\<rparr>,
                  sceneProps = Some \<lparr>sceneOptions = None, isInteractiveInspector = Some True,
                                     onSceneReady = Some ''populate'', isGui3DManager = None,
                                     xrDefaultExperienceOptions = Some ''xr-options'',
                                     physicsOptions = Some \<lparr>gravity = None, plugin = None\<rparr>\<rparr>,
                  children = ''ui''\<rparr>"

definition fair_env :: environment where
  "fair_env = \<lparr>HavokPhysics = Fulfilled ''havok-wasm'',
                createDefaultXRExperienceAsync = Fulfilled ''xr-session''\<rparr>"

definition bare_engine :: babylon_engine where
  "bare_engine = BabylonEngine ''c1'' (Some True) None None"

definition bare_scene :: scene where
  "bare_scene = Scene bare_engine None"

text \<open>The state after the mount of the scenario.\<close>

definition mounted_state :: component_state where
  "mounted_state = fst (initializeScene bare_props fair_env idle_state)"

text \<open>
  The scene of the scenario once a camera has been added to it without becoming the
  active camera (or after the active camera has been cleared).
\<close>

definition scene_with_idle_camera :: scene_view where
  "scene_with_idle_camera =
     \<lparr>view_scene = bare_scene, activeCamera = None, cameras = Some [''camera1'']\<rparr>"


section \<open>Lemmas on the parameter-name recovery\<close>

lemma find_constructor_None:
  "find_constructor members = None \<longleftrightarrow> \<not> has_explicit_constructor members"
  by (induction members) (auto simp: has_explicit_constructor_def)

lemma find_constructor_Some:
  "find_constructor members = Some x \<Longrightarrow> is_constructor_method x"
  by (induction members) (auto split: if_splits)


lemma traverse_param_console:
  "traverse_param q con = (fst (traverse_param q []), con @ snd (traverse_param q []))"
  by (cases q) (simp_all add: console_warn_def)

lemma map_params_console:
  "map_params ps con = (fst (map_params ps []), con @ snd (map_params ps []))"
proof (induction ps arbitrary: con)
  case Nil
  then show ?case by simp
next
  case (Cons q ps)
  obtain r w where q: "traverse_param q [] = (r, w)" by (cases "traverse_param q []")
  have here: "traverse_param q con = (r, con @ w)"
    using traverse_param_console [of q con] by (simp add: q)
  have "map_params ps (con @ w) = (fst (map_params ps []), con @ w @ snd (map_params ps []))"
    using Cons.IH [of "con @ w"] by simp
  moreover have "map_params ps w = (fst (map_params ps []), w @ snd (map_params ps []))"
    using Cons.IH [of w] .
  ultimately show ?case
    by (simp add: q here)
qed

lemma map_params_append:
  "map_params (ps @ qs) con =
     (fst (map_params ps []) @ fst (map_params qs []),
      con @ snd (map_params ps []) @ snd (map_params qs []))"
proof (induction ps arbitrary: con)
  case Nil
  show ?case using map_params_console [of qs con] by simp
next
  case (Cons q ps)
  obtain r w where q: "traverse_param q [] = (r, w)" by (cases "traverse_param q []")
  have here: "traverse_param q con = (r, con @ w)"
    using traverse_param_console [of q con] by (simp add: q)
  have tail: "map_params ps w = (fst (map_params ps []), w @ snd (map_params ps []))"
    using map_params_console [of ps w] .
  show ?case
    using Cons.IH [of "con @ w"] by (simp add: q here tail)
qed

lemma traverse_param_unknown:
  "unknown_parameter_type q \<Longrightarrow>
     traverse_param q con = (None, con @ [''Unknown parameter type: '' @ pattern_type q])"
  by (cases q) (simp_all add: console_warn_def)

lemma map_params_unknown:
  assumes "unknown_parameter_type q"
  shows "map_params (ps @ q # qs) con =
     (fst (map_params ps []) @ None # fst (map_params qs []),
      con @ snd (map_params ps []) @ (''Unknown parameter type: '' @ pattern_type q) # snd (map_params qs []))"
proof -
  have "map_params (q # qs) [] =
      (None # fst (map_params qs []), (''Unknown parameter type: '' @ pattern_type q) # snd (map_params qs []))"
    using map_params_console [of qs "[''Unknown parameter type: '' @ pattern_type q]"]
    by (simp add: traverse_param_unknown [OF assms])
  then show ?thesis
    by (simp add: map_params_append [of ps "q # qs"])
qed

lemma remove_nulls_placeholder:
  "remove_nulls (Some (xs @ None # ys)) = remove_nulls (Some (xs @ ys))"
  by (simp add: remove_nulls_def)


section \<open>Lemmas on the sections of initializeScene\<close>

lemma emit_simps [simp]:
  "canvasRef (emit e st) = canvasRef st"
  "engineRef (emit e st) = engineRef st"
  "sceneRef (emit e st) = sceneRef st"
  "rootContainerRef (emit e st) = rootContainerRef st"
  "trace (emit e st) = trace st @ [e]"
  by (simp_all add: emit_def)

lemma emits_simps [simp]:
  "canvasRef (emits evs st) = canvasRef st"
  "engineRef (emits evs st) = engineRef st"
  "sceneRef (emits evs st) = sceneRef st"
  "rootContainerRef (emits evs st) = rootContainerRef st"
  "trace (emits evs st) = trace st @ evs"
  by (simp_all add: emits_def)

lemma engine_section_fst: "fst (engine_section p cv st) = new_engine p cv"
  by (simp add: engine_section_def Let_def)

lemma engine_section_refs:
  "canvasRef (snd (engine_section p cv st)) = canvasRef st"
  "engineRef (snd (engine_section p cv st)) = Some (new_engine p cv)"
  "sceneRef (snd (engine_section p cv st)) = sceneRef st"
  "rootContainerRef (snd (engine_section p cv st)) = rootContainerRef st"
  by (simp_all add: engine_section_def Let_def split: option.split)

lemma engine_section_trace:
  "\<exists>evs. trace (snd (engine_section p cv st)) = trace st @ evs \<and> (\<forall>x\<in>set evs. stage x = 0)"
  by (cases "loader (engineProps p)") (simp_all add: engine_section_def Let_def)

lemma scene_section_fst: "fst (scene_section p e st) = new_scene p e"
  by (simp add: scene_section_def Let_def)

lemma scene_section_refs:
  "canvasRef (snd (scene_section p e st)) = canvasRef st"
  "engineRef (snd (scene_section p e st)) = engineRef st"
  "sceneRef (snd (scene_section p e st)) = Some (new_scene p e)"
  "rootContainerRef (snd (scene_section p e st)) = rootContainerRef st"
  by (simp_all add: scene_section_def Let_def split: option.split)

lemma scene_section_trace:
  "trace (snd (scene_section p e st)) =
     trace st @ Scene_new (new_scene p e) #
       (case scene_prop onSceneReady p of
          None \<Rightarrow> []
        | Some cb \<Rightarrow> [OnSceneReady cb (new_scene p e)])"
  by (simp add: scene_section_def Let_def split: option.split)

lemma enable_physics_stage: "x \<in> set (fst (enable_physics po env sc)) \<Longrightarrow> stage x = 2"
  by (auto simp: enable_physics_def Let_def split: option.splits settled.splits)

lemma enable_xr_stage: "x \<in> set (fst (enable_xr xo env sc)) \<Longrightarrow> stage x = 3"
  by (auto simp: enable_xr_def split: option.splits settled.splits)

lemma mount_events_stage: "x \<in> set (mount_events p cv xr) \<Longrightarrow> 4 \<le> stage x"
  by (auto simp: mount_events_def enable_inspector_def Let_def split: if_splits)

lemma reconciler_section_refs:
  "canvasRef (reconciler_section p sc xr st) = canvasRef st"
  "engineRef (reconciler_section p sc xr st) = engineRef st"
  "sceneRef (reconciler_section p sc xr st) = sceneRef st"
  "rootContainerRef (reconciler_section p sc xr st) =
     Some (new_root_container (with_default True (scene_prop isGui3DManager p)) sc)"
  by (simp_all add: reconciler_section_def Let_def)

lemma reconciler_section_trace:
  "trace (reconciler_section p sc xr st) =
     trace st @
     (if with_default True (scene_prop isGui3DManager p) then [GUI3DManager_new (GUI3DManager sc)] else []) @
     [Reactylon_render
        (Some (provider_tree
                 \<lparr>context_engine = engineRef st, context_canvas = canvasRef st\<rparr>
                 \<lparr>context_scene = sceneRef st, sceneReady = True, xrExperience = xr\<rparr>
                 (children p)))
        (Some (new_root_container (with_default True (scene_prop isGui3DManager p)) sc))]"
  by (simp add: reconciler_section_def Let_def)

lemma precedes_sorted:
  assumes "sorted (map f tr)" and "\<And>x y. P x \<Longrightarrow> Q y \<Longrightarrow> f x < f y"
  shows "precedes P Q tr"
  using assms(1)
proof (induction tr)
  case Nil
  then show ?case by simp
next
  case (Cons x xs)
  have "\<not> list_ex P xs" if "Q x"
  proof
    assume "list_ex P xs"
    then obtain y where y: "y \<in> set xs" "P y" by (auto simp: list_ex_iff)
    with Cons.prems have "f x \<le> f y" by simp
    moreover from assms(2) [OF y(2) that] have "f y < f x" .
    ultimately show False by simp
  qed
  with Cons show ?case by auto
qed

lemma sorted_const: "\<forall>x\<in>set xs. f x = (k::nat) \<Longrightarrow> sorted (map f xs)"
  by (induction xs) auto

lemma new_events_append: "trace st' = trace st @ evs \<Longrightarrow> new_events st st' = evs"
  by (simp add: new_events_def)

lemma initializeScene_no_canvas:
  "canvasRef st = None \<Longrightarrow> initializeScene p env st = (st, Fulfilled Undefined)"
  by (simp add: initializeScene_def)

lemma initializeScene_canvas:
  assumes "canvasRef st = Some cv"
  shows "initializeScene p env st =
    (let e = new_engine p cv;
         sc = new_scene p e;
         st2 = snd (scene_section p e (snd (engine_section p cv st)));
         physics = enable_physics (scene_prop physicsOptions p) env sc;
         xr = enable_xr (scene_prop xrDefaultExperienceOptions p) env sc
     in case snd physics of
          Some r \<Rightarrow> (emits (fst physics) st2, Rejected r)
        | None \<Rightarrow>
            (case snd xr of
               Rejected r \<Rightarrow> (emits (fst xr) (emits (fst physics) st2), Rejected r)
             | Fulfilled x \<Rightarrow>
                 (reconciler_section p sc x
                    (emits (enable_inspector (with_default False (scene_prop isInteractiveInspector p)))
                       (emits (fst xr) (emits (fst physics) st2))),
                  Fulfilled Cleanup)))"
  using assms
  by (simp add: initializeScene_def case_prod_unfold Let_def engine_section_fst scene_section_fst
        cong: option.case_cong settled.case_cong)

lemma initializeScene_events:
  assumes cv: "canvasRef st = Some cv"
  shows "\<exists>A. (\<forall>x\<in>set A. stage x = 0) \<and>
    new_events st (fst (initializeScene p env st)) = A @ run_events p env cv"
proof -
  obtain A where A: "trace (snd (engine_section p cv st)) = trace st @ A" "\<forall>x\<in>set A. stage x = 0"
    using engine_section_trace by blast
  have "new_events st (fst (initializeScene p env st)) = A @ run_events p env cv"
    unfolding initializeScene_canvas [OF cv] Let_def
    by (rule new_events_append)
       (simp add: A(1) cv engine_section_refs scene_section_refs run_events_def mount_events_def
          scene_section_trace reconciler_section_trace Let_def
          split: option.split settled.split)
  with A(2) show ?thesis by blast
qed

lemma enable_physics_sorted: "sorted (map stage (fst (enable_physics po env sc)))"
  by (rule sorted_const [where k = 2]) (simp add: enable_physics_stage)

lemma enable_xr_sorted: "sorted (map stage (fst (enable_xr xo env sc)))"
  by (rule sorted_const [where k = 3]) (simp add: enable_xr_stage)

lemma mount_events_sorted: "sorted (map stage (mount_events p cv x))"
  by (simp add: mount_events_def enable_inspector_def Let_def)

lemma run_events_sorted: "sorted (map stage (run_events p env cv))"
  unfolding run_events_def Let_def
  by (auto simp: sorted_append enable_physics_sorted enable_xr_sorted mount_events_sorted
        dest!: enable_physics_stage enable_xr_stage mount_events_stage
        split: option.splits settled.splits)

lemma initializeScene_sorted:
  "sorted (map stage (new_events st (fst (initializeScene p env st))))"
proof (cases "canvasRef st")
  case None
  then show ?thesis by (simp add: initializeScene_no_canvas new_events_def)
next
  case (Some cv)
  from initializeScene_events [OF Some, of p env]
  obtain A where "\<forall>x\<in>set A. stage x = 0"
    and "new_events st (fst (initializeScene p env st)) = A @ run_events p env cv"
    by blast
  then show ?thesis
    by (simp add: sorted_append sorted_const [where k = 0] run_events_sorted)
qed

lemma is_scene_ready_stage: "is_scene_ready x = (stage x = 1)"
  by (cases x) simp_all

lemma is_physics_stage: "is_physics x = (stage x = 2)"
  by (cases x) simp_all

lemma is_xr_stage: "is_xr x = (stage x = 3)"
  by (cases x) simp_all

lemma is_render_stage: "is_render x = (stage x = 6)"
  by (cases x) simp_all


lemma filter_stage_other: "\<forall>x\<in>set xs. stage x \<noteq> 2 \<Longrightarrow> filter is_physics xs = []"
  by (induction xs) (auto simp: is_physics_stage)

lemma is_physics_stage0: "\<forall>x\<in>set A. stage x = 0 \<Longrightarrow> filter is_physics A = []"
  by (rule filter_stage_other) simp

lemma filter_physics_mount [simp]: "filter is_physics (mount_events p cv x) = []"
  by (rule filter_stage_other) (auto dest: mount_events_stage)

lemma filter_physics_xr [simp]: "filter is_physics (fst (enable_xr xo env sc)) = []"
  by (rule filter_stage_other) (auto dest: enable_xr_stage)

lemma filter_physics_physics [simp]:
  "filter is_physics (fst (enable_physics po env sc)) = fst (enable_physics po env sc)"
  by (simp add: filter_id_conv is_physics_stage enable_physics_stage)

lemma filter_physics_run:
  "filter is_physics (run_events p env cv) =
     fst (enable_physics (scene_prop physicsOptions p) env (new_scene p (new_engine p cv)))"
  by (simp add: run_events_def Let_def split: option.split settled.split)

lemma filter_physics_initializeScene:
  assumes "canvasRef st = Some cv"
  shows "filter is_physics (new_events st (fst (initializeScene p env st))) =
     fst (enable_physics (scene_prop physicsOptions p) env (new_scene p (new_engine p cv)))"
proof -
  from initializeScene_events [OF assms, of p env]
  obtain A where "\<forall>x\<in>set A. stage x = 0"
    and "new_events st (fst (initializeScene p env st)) = A @ run_events p env cv"
    by blast
  then show ?thesis by (simp add: is_physics_stage0 filter_physics_run)
qed

lemma list_ex_stage: "list_ex P xs \<Longrightarrow> (\<And>x. P x \<Longrightarrow> stage x = k) \<Longrightarrow> \<exists>x\<in>set xs. stage x = k"
  by (auto simp: list_ex_iff)

lemma scene_ready_in_run:
  assumes "OnSceneReady cb sc \<in> set (run_events p env cv)"
  shows "scene_prop onSceneReady p = Some cb \<and> sc = new_scene p (new_engine p cv)"
  using assms
  by (auto simp: run_events_def Let_def
        dest: enable_physics_stage enable_xr_stage mount_events_stage
        split: option.splits settled.splits)

lemma run_events_ready:
  assumes "scene_prop onSceneReady p = Some cb"
  shows "\<exists>post. run_events p env cv =
     Scene_new (new_scene p (new_engine p cv)) # OnSceneReady cb (new_scene p (new_engine p cv)) # post"
  using assms by (simp add: run_events_def Let_def)

lemma xr_in_run:
  assumes "Scene_createDefaultXRExperienceAsync sc xo \<in> set (run_events p env cv)"
  shows "snd (enable_physics (scene_prop physicsOptions p) env (new_scene p (new_engine p cv))) = None
       \<and> sc = new_scene p (new_engine p cv)"
  using assms
  by (auto simp: run_events_def Let_def enable_xr_def
        dest: enable_physics_stage mount_events_stage
        split: option.splits settled.splits)

lemma enable_physics_done:
  assumes "snd (enable_physics (Some po) env sc) = None"
  shows "(\<exists>g pl. Scene_enablePhysics sc g pl \<in> set (fst (enable_physics (Some po) env sc))) \<and>
         (plugin po = None \<longrightarrow> (\<exists>m. HavokPhysics env = Fulfilled m))"
  using assms
  by (auto simp: enable_physics_def Let_def split: option.splits settled.splits)

lemma physics_in_run:
  "x \<in> set (fst (enable_physics (scene_prop physicsOptions p) env (new_scene p (new_engine p cv))))
     \<Longrightarrow> x \<in> set (run_events p env cv)"
  by (simp add: run_events_def Let_def)

lemma initializeScene_mounted:
  assumes "initializeScene p env st = (st', Fulfilled Cleanup)"
  shows "\<exists>cv x. canvasRef st = Some cv \<and>
     snd (enable_physics (scene_prop physicsOptions p) env (new_scene p (new_engine p cv))) = None \<and>
     snd (enable_xr (scene_prop xrDefaultExperienceOptions p) env (new_scene p (new_engine p cv))) = Fulfilled x \<and>
     rootContainerRef st' =
       Some (new_root_container (with_default True (scene_prop isGui3DManager p)) (new_scene p (new_engine p cv)))"
proof (cases "canvasRef st")
  case None
  with assms show ?thesis by (simp add: initializeScene_no_canvas)
next
  case (Some cv)
  from assms show ?thesis
    unfolding initializeScene_canvas [OF Some] Let_def
    by (auto simp: Some reconciler_section_refs split: option.splits settled.splits)
qed

lemma list_ex_render_stage: "\<forall>x\<in>set xs. stage x < 6 \<Longrightarrow> \<not> list_ex is_render xs"
  by (auto simp: list_ex_iff is_render_stage)

lemma run_events_mounted:
  assumes "snd (enable_physics (scene_prop physicsOptions p) env (new_scene p (new_engine p cv))) = None"
    and "snd (enable_xr (scene_prop xrDefaultExperienceOptions p) env (new_scene p (new_engine p cv))) = Fulfilled x"
  shows "\<exists>pre. (\<forall>e\<in>set pre. stage e < 6) \<and> run_events p env cv = pre @
     [Reactylon_render
        (Some (provider_tree
                 \<lparr>context_engine = Some (new_engine p cv), context_canvas = Some cv\<rparr>
                 \<lparr>context_scene = Some (new_scene p (new_engine p cv)), sceneReady = True, xrExperience = x\<rparr>
                 (children p)))
        (Some (new_root_container (with_default True (scene_prop isGui3DManager p)) (new_scene p (new_engine p cv))))]"
proof -
  let ?sc = "new_scene p (new_engine p cv)"
  let ?pre = "Scene_new ?sc #
         (case scene_prop onSceneReady p of None \<Rightarrow> [] | Some cb \<Rightarrow> [OnSceneReady cb ?sc]) @
         fst (enable_physics (scene_prop physicsOptions p) env ?sc) @
         fst (enable_xr (scene_prop xrDefaultExperienceOptions p) env ?sc) @
         enable_inspector (with_default False (scene_prop isInteractiveInspector p)) @
         (if with_default True (scene_prop isGui3DManager p) then [GUI3DManager_new (GUI3DManager ?sc)] else [])"
  have "\<forall>e\<in>set ?pre. stage e < 6"
    by (auto simp: enable_inspector_def dest: enable_physics_stage enable_xr_stage
          split: option.splits if_splits)
  moreover have "run_events p env cv = ?pre @
     [Reactylon_render
        (Some (provider_tree
                 \<lparr>context_engine = Some (new_engine p cv), context_canvas = Some cv\<rparr>
                 \<lparr>context_scene = Some ?sc, sceneReady = True, xrExperience = x\<rparr>
                 (children p)))
        (Some (new_root_container (with_default True (scene_prop isGui3DManager p)) ?sc))]"
    using assms by (simp add: run_events_def mount_events_def Let_def)
  ultimately show ?thesis by blast
qed

lemma published_stage: "published x = Some y \<Longrightarrow> stage x = 6"
  by (cases x) simp_all

lemma snapshots_append: "snapshots (xs @ ys) = snapshots xs @ snapshots ys"
  by (simp add: snapshots_def map_filter_def)

lemma snapshots_other: "\<forall>x\<in>set xs. stage x < 6 \<Longrightarrow> snapshots xs = []"
proof (induction xs)
  case Nil
  then show ?case by (simp add: snapshots_def map_filter_def)
next
  case (Cons x xs)
  then have "published x = None"
    using published_stage [of x] by (cases "published x") auto
  with Cons show ?case by (simp add: snapshots_def map_filter_def)
qed

lemma snapshots_render:
  "snapshots [Reactylon_render (Some (provider_tree ec sx ch)) rc] = [(ec, sx)]"
  by (simp add: snapshots_def map_filter_def provider_tree_def)

lemma snapshots_run:
  "snapshots (run_events p env cv) =
     (case snd (enable_physics (scene_prop physicsOptions p) env (new_scene p (new_engine p cv))) of
        Some r \<Rightarrow> []
      | None \<Rightarrow>
          (case snd (enable_xr (scene_prop xrDefaultExperienceOptions p) env (new_scene p (new_engine p cv))) of
             Rejected r \<Rightarrow> []
           | Fulfilled x \<Rightarrow>
               [(\<lparr>context_engine = Some (new_engine p cv), context_canvas = Some cv\<rparr>,
                 \<lparr>context_scene = Some (new_scene p (new_engine p cv)), sceneReady = True,
                  xrExperience = x\<rparr>)]))"
proof (cases "snd (enable_physics (scene_prop physicsOptions p) env (new_scene p (new_engine p cv)))")
  case (Some r)
  have "snapshots (run_events p env cv) = []"
    by (rule snapshots_other)
       (auto simp: run_events_def Let_def Some dest: enable_physics_stage split: option.splits)
  with Some show ?thesis by simp
next
  case None
  show ?thesis
  proof (cases "snd (enable_xr (scene_prop xrDefaultExperienceOptions p) env (new_scene p (new_engine p cv)))")
    case (Rejected r)
    have "snapshots (run_events p env cv) = []"
      by (rule snapshots_other)
         (auto simp: run_events_def Let_def None Rejected
            dest: enable_physics_stage enable_xr_stage split: option.splits)
    with None Rejected show ?thesis by simp
  next
    case (Fulfilled x)
    from run_events_mounted [OF None Fulfilled] obtain pre
      where "\<forall>e\<in>set pre. stage e < 6"
        and "run_events p env cv = pre @
     [Reactylon_render
        (Some (provider_tree
                 \<lparr>context_engine = Some (new_engine p cv), context_canvas = Some cv\<rparr>
                 \<lparr>context_scene = Some (new_scene p (new_engine p cv)), sceneReady = True, xrExperience = x\<rparr>
                 (children p)))
        (Some (new_root_container (with_default True (scene_prop isGui3DManager p)) (new_scene p (new_engine p cv))))]"
      by blast
    then show ?thesis
      by (simp add: snapshots_append snapshots_other snapshots_render None Fulfilled)
  qed
qed

lemma enable_xr_value:
  "snd (enable_xr xo env sc) = Fulfilled (Some x) \<Longrightarrow>
     xo \<noteq> None \<and> createDefaultXRExperienceAsync env = Fulfilled x"
  by (auto simp: enable_xr_def split: option.splits settled.splits)

lemma enable_xr_none: "snd (enable_xr None env sc) = Fulfilled None"
  by (simp add: enable_xr_def)

lemma scene_prop_absent: "sceneProps p = None \<Longrightarrow> scene_prop field p = None"
  by (simp add: scene_prop_def)


lemma published_in_snapshots:
  "ev \<in> set tr \<Longrightarrow> published ev = Some s \<Longrightarrow> s \<in> set (snapshots tr)"
  by (force simp: snapshots_def map_filter_def)

lemma enable_xr_call:
  assumes "snd (enable_xr xo env sc) = Fulfilled (Some x)"
  shows "\<exists>opts. xo = Some opts \<and>
     fst (enable_xr xo env sc) = [Scene_createDefaultXRExperienceAsync sc opts]"
  using assms by (auto simp: enable_xr_def split: option.splits settled.splits)

lemma xr_in_run_events:
  assumes "snd (enable_physics (scene_prop physicsOptions p) env (new_scene p (new_engine p cv))) = None"
    and "e \<in> set (fst (enable_xr (scene_prop xrDefaultExperienceOptions p) env (new_scene p (new_engine p cv))))"
  shows "e \<in> set (run_events p env cv)"
  using assms by (simp add: run_events_def Let_def)

lemma earlier_stage_in_prefix:
  assumes "sorted (map stage (pre @ ev # post))"
    and "e \<in> set (pre @ ev # post)" and "stage e < stage ev"
  shows "e \<in> set pre"
  using assms by (auto simp: sorted_append)

lemma published_after_negotiation:
  assumes tr: "new_events st (fst (initializeScene p env st)) = pre @ ev # post"
    and pub: "published ev = Some (ec, sx)"
    and x: "xrExperience sx = Some x"
  shows "\<exists>sc xo. context_scene sx = Some sc \<and>
           scene_prop xrDefaultExperienceOptions p = Some xo \<and>
           Scene_createDefaultXRExperienceAsync sc xo \<in> set pre \<and>
           createDefaultXRExperienceAsync env = Fulfilled x"
proof (cases "canvasRef st")
  case None
  with tr show ?thesis
    by (simp add: initializeScene_no_canvas new_events_def)
next
  case (Some cv)
  let ?tr = "new_events st (fst (initializeScene p env st))"
  let ?sc = "new_scene p (new_engine p cv)"
  from initializeScene_events [OF Some, of p env]
  obtain A where A: "\<forall>x\<in>set A. stage x = 0" and run: "?tr = A @ run_events p env cv"
    by blast
  from A have "snapshots A = []"
    by (intro snapshots_other) simp
  then have snaps: "snapshots ?tr = snapshots (run_events p env cv)"
    by (simp add: run snapshots_append)
  have "ev \<in> set ?tr"
    by (simp add: tr)
  from published_in_snapshots [OF this pub]
  have "(ec, sx) \<in> set (snapshots (run_events p env cv))"
    by (simp add: snaps)
  then have ph: "snd (enable_physics (scene_prop physicsOptions p) env ?sc) = None"
    and xr: "snd (enable_xr (scene_prop xrDefaultExperienceOptions p) env ?sc) = Fulfilled (xrExperience sx)"
    and sc: "context_scene sx = Some ?sc"
    unfolding snapshots_run by (auto split: option.splits settled.splits)
  from xr x have xr': "snd (enable_xr (scene_prop xrDefaultExperienceOptions p) env ?sc) = Fulfilled (Some x)"
    by simp
  from enable_xr_call [OF xr'] obtain xo
    where xo: "scene_prop xrDefaultExperienceOptions p = Some xo"
      and call: "fst (enable_xr (scene_prop xrDefaultExperienceOptions p) env ?sc) =
                   [Scene_createDefaultXRExperienceAsync ?sc xo]"
    by blast
  have "Scene_createDefaultXRExperienceAsync ?sc xo \<in> set (run_events p env cv)"
    by (rule xr_in_run_events [OF ph]) (simp add: call)
  then have mem: "Scene_createDefaultXRExperienceAsync ?sc xo \<in> set (pre @ ev # post)"
    by (simp add: tr [symmetric] run)
  have sorted: "sorted (map stage (pre @ ev # post))"
    using initializeScene_sorted [of st p env] by (simp add: tr)
  have earlier: "stage (Scene_createDefaultXRExperienceAsync ?sc xo) < stage ev"
    using published_stage [OF pub] by simp
  have "Scene_createDefaultXRExperienceAsync ?sc xo \<in> set pre"
    by (rule earlier_stage_in_prefix [OF sorted mem earlier])
  with sc xo enable_xr_value [OF xr'] show ?thesis
    by blast
qed


section \<open>The render loop and the cleanup closure\<close>

lemma render_scene_trace:
  "trace (render_scene s st) =
     trace st @ (if activeCamera s = None then [Console_warn ''no active camera..''] else []) @
                (if has_cameras s then [Scene_render (view_scene s)] else [])"
  by (simp add: render_scene_def Let_def)

lemma render_scene_renders_iff:
  "Scene_render (view_scene s) \<in> set (new_events st (render_scene s st)) \<longleftrightarrow> has_cameras s"
  by (simp add: new_events_def render_scene_trace)

lemma render_scene_warns_iff:
  "Console_warn ''no active camera..'' \<in> set (new_events st (render_scene s st)) \<longleftrightarrow>
     activeCamera s = None"
  by (simp add: new_events_def render_scene_trace)

lemma effect_callback_returns_nothing: "snd (effect_callback p env st) = None"
  by (simp add: effect_callback_def)

lemma unmount_after_effect: "unmount (snd (effect_callback p env st)) st' = (st', None)"
  by (simp add: effect_callback_def unmount_def)

lemma cleanup_sequence:
  assumes "engineRef st = Some e"
  shows "new_events st (fst (cleanup st)) =
           [Window_removeEventListener ''resize'', Engine_dispose e,
            Reactylon_render None (rootContainerRef st)] \<and>
         rootContainerRef (fst (cleanup st)) = None \<and>
         snd (cleanup st) = None"
  using assms by (simp add: cleanup_def Let_def new_events_def)

lemma cleanup_twice:
  assumes "engineRef st = Some e"
  shows "new_events (fst (cleanup st)) (fst (cleanup (fst (cleanup st)))) =
           [Window_removeEventListener ''resize'', Engine_dispose e, Reactylon_render None None]"
  using assms by (simp add: cleanup_def Let_def new_events_def)


section \<open>The concrete runs\<close>

lemma initializeScene_bare:
  "initializeScene bare_props fair_env idle_state =
     (\<lparr>canvasRef = Some ''c1'', engineRef = Some bare_engine, sceneRef = Some bare_scene,
       rootContainerRef = Some (new_root_container True bare_scene),
       trace = [Engine_new bare_engine, Engine_runRenderLoop bare_engine,
                Window_addEventListener ''resize'', Scene_new bare_scene,
                GUI3DManager_new (GUI3DManager bare_scene),
                Reactylon_render
                  (Some (provider_tree
                     \<lparr>context_engine = Some bare_engine, context_canvas = Some ''c1''\<rparr>
                     \<lparr>context_scene = Some bare_scene, sceneReady = True, xrExperience = None\<rparr>
                     ''ui''))
                  (Some (new_root_container True bare_scene))]\<rparr>,
      Fulfilled Cleanup)"
  by (simp add: idle_state_def bare_props_def fair_env_def bare_engine_def bare_scene_def
        initializeScene_def engine_section_def scene_section_def enable_physics_def
        enable_xr_def enable_inspector_def reconciler_section_def emit_def emits_def Let_def
        new_engine_def new_scene_def scene_prop_def with_default_def)

lemma full_run_trace:
  "new_events idle_state (fst (initializeScene full_props fair_env idle_state)) =
     [Engine_new bare_engine,
      Engine_set_loadingScreen bare_engine (CustomLoadingScreen ''c1'' ''spinner''),
      Engine_runRenderLoop bare_engine,
      Window_addEventListener ''resize'', Scene_new bare_scene,
      OnSceneReady ''populate'' bare_scene,
      HavokPhysics_call locateFile,
      Scene_enablePhysics bare_scene (Vector3 0 (- 9.8) 0) (HavokPlugin True ''havok-wasm''),
      Scene_createDefaultXRExperienceAsync bare_scene ''xr-options'',
      Document_addEventListener ''keydown'',
      GUI3DManager_new (GUI3DManager bare_scene),
      Reactylon_render
        (Some (provider_tree
           \<lparr>context_engine = Some bare_engine, context_canvas = Some ''c1''\<rparr>
           \<lparr>context_scene = Some bare_scene, sceneReady = True, xrExperience = Some ''xr-session''\<rparr>
           ''ui''))
        (Some (new_root_container True bare_scene))]"
  by (simp add: idle_state_def full_props_def fair_env_def bare_engine_def bare_scene_def
        initializeScene_def engine_section_def scene_section_def enable_physics_def
        enable_xr_def enable_inspector_def reconciler_section_def emit_def emits_def Let_def
        new_engine_def new_scene_def scene_prop_def with_default_def defaultGravity_def
        new_events_def)

lemma mounted_state_run:
  "initializeScene bare_props fair_env idle_state = (mounted_state, Fulfilled Cleanup)"
  by (simp add: mounted_state_def initializeScene_bare)

lemma mounted_state_refs:
  "engineRef mounted_state = Some bare_engine"
  "rootContainerRef mounted_state = Some (new_root_container True bare_scene)"
  by (simp_all add: mounted_state_def initializeScene_bare)


section \<open>The claims\<close>

subsection \<open>The render loop\<close>

text \<open>
  Claim C1. Each invocation of the render loop treats every scene of the engine on its
  own; a scene with no active camera gets a diagnostic and is not rendered in that
  frame, and only scenes with at least one camera are rendered.

  The callback has two separate tests. The diagnostic depends on the active camera, the
  call of \<open>render\<close> on the camera list alone (\<open>render_scene_renders_iff\<close>,
  \<open>render_scene_warns_iff\<close>). For a scene that has a camera but no active camera the
  callback writes the diagnostic and then calls \<open>render\<close> all the same: the run below,
  after the mount of the scenario.
\<close>

theorem render_without_active_camera:
  "activeCamera scene_with_idle_camera = None \<and>
   renderLoop_callback (\<lambda>e. [scene_with_idle_camera]) mounted_state =
     (emits [Console_warn ''no active camera..'', Scene_render bare_scene] mounted_state, None)"
  by (simp add: renderLoop_callback_def mounted_state_refs render_scene_def has_cameras_def
        scene_with_idle_camera_def emit_def emits_def Let_def)

subsection \<open>The teardown\<close>

text \<open>
  Claim C2. On the teardown of a mounted component the lifecycle performs exactly this
  sequence, in this order: remove the window-resize listener, unmount the reconciliation
  root (render the empty tree against the root container), dispose the engine; the
  sequence runs at most once, and repeated teardown signals do nothing.

  The code does not do this. \<open>initializeScene\<close> builds a cleanup closure and its
  promise is fulfilled with it, but the effect callback drops the promise and returns
  nothing, so the teardown has no function to call: after the mount of the scenario the
  unmount leaves the state as it is, with the listener in place, the root mounted and
  the engine alive. The closure itself, were it called, would dispose the engine before
  the unmount of the root (\<open>cleanup_sequence\<close>), and a second call would repeat its
  calls (\<open>cleanup_twice\<close>).
\<close>

theorem teardown_runs_nothing:
  "initializeScene bare_props fair_env idle_state = (mounted_state, Fulfilled Cleanup) \<and>
   effect_callback bare_props fair_env idle_state = (mounted_state, None) \<and>
   unmount (snd (effect_callback bare_props fair_env idle_state)) mounted_state =
     (mounted_state, None) \<and>
   new_events mounted_state
     (fst (unmount (snd (effect_callback bare_props fair_env idle_state)) mounted_state)) = [] \<and>
   new_events mounted_state (fst (cleanup mounted_state)) =
     [Window_removeEventListener ''resize'', Engine_dispose bare_engine,
      Reactylon_render None (Some (new_root_container True bare_scene))]"
  by (simp add: mounted_state_run effect_callback_def unmount_def cleanup_def Let_def
        new_events_def mounted_state_refs)

subsection \<open>The order of initialization\<close>

text \<open>
  Claim C3. During initialization the scene-ready callback of the caller is invoked
  synchronously with the scene just constructed, before physics is enabled and before
  the XR negotiation; and the XR negotiation never starts before the enablement of
  physics, with the awaited load of its module, has completed.

  In the trace of a run: every call of the callback comes before every physics call and
  before every XR call, and every physics call before every XR call; a call of the
  callback is a call of the callback of the props and directly follows the construction
  of the scene it is given; with a canvas and a callback in the props the call is made;
  and when the XR negotiation is started with physics options in the props, the scene's
  physics has been enabled, and the module has been loaded if no plugin was supplied.
\<close>

theorem scene_ready_then_physics_then_xr:
  "let tr = new_events st (fst (initializeScene p env st)) in
     precedes is_scene_ready is_physics tr \<and>
     precedes is_scene_ready is_xr tr \<and>
     precedes is_physics is_xr tr \<and>
     (\<forall>cb sc. OnSceneReady cb sc \<in> set tr \<longrightarrow>
        scene_prop onSceneReady p = Some cb \<and>
        (\<exists>pre post. tr = pre @ Scene_new sc # OnSceneReady cb sc # post)) \<and>
     (\<forall>cv cb. canvasRef st = Some cv \<and> scene_prop onSceneReady p = Some cb \<longrightarrow>
        OnSceneReady cb (Scene (BabylonEngine cv (antialias (engineProps p))
          (engineOptions (engineProps p)) (adaptToDeviceRatio (engineProps p)))
          (scene_prop sceneOptions p)) \<in> set tr) \<and>
     (\<forall>sc xo po. Scene_createDefaultXRExperienceAsync sc xo \<in> set tr \<and>
        scene_prop physicsOptions p = Some po \<longrightarrow>
        (\<exists>g pl. Scene_enablePhysics sc g pl \<in> set tr) \<and>
        (plugin po = None \<longrightarrow> (\<exists>m. HavokPhysics env = Fulfilled m)))"
proof -
  define tr where "tr = new_events st (fst (initializeScene p env st))"
  have sorted: "sorted (map stage tr)"
    unfolding tr_def by (rule initializeScene_sorted)
  have order: "precedes is_scene_ready is_physics tr" "precedes is_scene_ready is_xr tr"
    "precedes is_physics is_xr tr"
    by (rule precedes_sorted [OF sorted], simp add: is_scene_ready_stage is_physics_stage is_xr_stage)+
  have rest: "(\<forall>cb sc. OnSceneReady cb sc \<in> set tr \<longrightarrow>
        scene_prop onSceneReady p = Some cb \<and>
        (\<exists>pre post. tr = pre @ Scene_new sc # OnSceneReady cb sc # post)) \<and>
     (\<forall>cv cb. canvasRef st = Some cv \<and> scene_prop onSceneReady p = Some cb \<longrightarrow>
        OnSceneReady cb (Scene (BabylonEngine cv (antialias (engineProps p))
          (engineOptions (engineProps p)) (adaptToDeviceRatio (engineProps p)))
          (scene_prop sceneOptions p)) \<in> set tr) \<and>
     (\<forall>sc xo po. Scene_createDefaultXRExperienceAsync sc xo \<in> set tr \<and>
        scene_prop physicsOptions p = Some po \<longrightarrow>
        (\<exists>g pl. Scene_enablePhysics sc g pl \<in> set tr) \<and>
        (plugin po = None \<longrightarrow> (\<exists>m. HavokPhysics env = Fulfilled m)))"
  proof (cases "canvasRef st")
    case None
    then show ?thesis by (simp add: tr_def initializeScene_no_canvas new_events_def)
  next
    case (Some cv)
    from initializeScene_events [OF Some, of p env]
    obtain A where A: "\<forall>x\<in>set A. stage x = 0" and tr: "tr = A @ run_events p env cv"
      unfolding tr_def by blast
    have ready: "scene_prop onSceneReady p = Some cb \<and>
        (\<exists>pre post. tr = pre @ Scene_new sc # OnSceneReady cb sc # post)"
      if "OnSceneReady cb sc \<in> set tr" for cb sc
    proof -
      from that A have "OnSceneReady cb sc \<in> set (run_events p env cv)"
        unfolding tr by auto
      then have cb: "scene_prop onSceneReady p = Some cb" and sc: "sc = new_scene p (new_engine p cv)"
        using scene_ready_in_run by blast+
      from run_events_ready [OF cb, of env cv] obtain post
        where "run_events p env cv = Scene_new sc # OnSceneReady cb sc # post"
        unfolding sc by blast
      then have "tr = A @ Scene_new sc # OnSceneReady cb sc # post"
        by (simp add: tr)
      with cb show ?thesis by blast
    qed
    have xr: "(\<exists>g pl. Scene_enablePhysics sc g pl \<in> set tr) \<and>
        (plugin po = None \<longrightarrow> (\<exists>m. HavokPhysics env = Fulfilled m))"
      if "Scene_createDefaultXRExperienceAsync sc xo \<in> set tr"
        and po: "scene_prop physicsOptions p = Some po" for sc xo po
    proof -
      from that(1) A have "Scene_createDefaultXRExperienceAsync sc xo \<in> set (run_events p env cv)"
        unfolding tr by auto
      then have "snd (enable_physics (scene_prop physicsOptions p) env (new_scene p (new_engine p cv))) = None"
        and sc: "sc = new_scene p (new_engine p cv)"
        using xr_in_run by blast+
      then have "snd (enable_physics (Some po) env sc) = None"
        by (simp add: po)
      note phys = enable_physics_done [OF this]
      from phys obtain g pl
        where "Scene_enablePhysics sc g pl \<in> set (fst (enable_physics (Some po) env sc))"
        by (elim conjE exE)
      then have "Scene_enablePhysics sc g pl \<in> set tr"
        using physics_in_run [of _ p env cv] by (simp add: tr po sc)
      with phys show ?thesis by blast
    qed
    have called: "OnSceneReady cb (Scene (BabylonEngine cv' (antialias (engineProps p))
          (engineOptions (engineProps p)) (adaptToDeviceRatio (engineProps p)))
          (scene_prop sceneOptions p)) \<in> set tr"
      if "canvasRef st = Some cv'" and cb: "scene_prop onSceneReady p = Some cb" for cv' cb
    proof -
      from that(1) Some have "cv' = cv" by simp
      with run_events_ready [OF cb, of env cv] show ?thesis
        by (auto simp: tr new_scene_def new_engine_def)
    qed
    from ready xr called show ?thesis by blast
  qed
  from order rest show ?thesis
    unfolding tr_def Let_def by blast
qed

theorem scene_ready_then_physics_then_xr_witness:
  "OnSceneReady ''populate'' bare_scene \<in>
     set (new_events idle_state (fst (initializeScene full_props fair_env idle_state))) \<and>
   Scene_createDefaultXRExperienceAsync bare_scene ''xr-options'' \<in>
     set (new_events idle_state (fst (initializeScene full_props fair_env idle_state))) \<and>
   canvasRef idle_state = Some ''c1'' \<and>
   scene_prop onSceneReady full_props = Some ''populate'' \<and>
   scene_prop physicsOptions full_props = Some \<lparr>gravity = None, plugin = None\<rparr> \<and>
   precedes is_scene_ready is_physics
     (new_events idle_state (fst (initializeScene full_props fair_env idle_state))) \<and>
   precedes is_scene_ready is_xr
     (new_events idle_state (fst (initializeScene full_props fair_env idle_state))) \<and>
   precedes is_physics is_xr
     (new_events idle_state (fst (initializeScene full_props fair_env idle_state))) \<and>
   (\<exists>pre post. new_events idle_state (fst (initializeScene full_props fair_env idle_state)) =
      pre @ Scene_new bare_scene # OnSceneReady ''populate'' bare_scene # post) \<and>
   (\<exists>g pl. Scene_enablePhysics bare_scene g pl \<in>
      set (new_events idle_state (fst (initializeScene full_props fair_env idle_state)))) \<and>
   (\<exists>m. HavokPhysics fair_env = Fulfilled m)"
proof -
  let ?tr = "new_events idle_state (fst (initializeScene full_props fair_env idle_state))"
  have ready: "OnSceneReady ''populate'' bare_scene \<in> set ?tr"
    and xr: "Scene_createDefaultXRExperienceAsync bare_scene ''xr-options'' \<in> set ?tr"
    by (simp_all add: full_run_trace)
  have cv: "canvasRef idle_state = Some ''c1''"
    by (simp add: idle_state_def)
  have cb: "scene_prop onSceneReady full_props = Some ''populate''"
    and po: "scene_prop physicsOptions full_props = Some \<lparr>gravity = None, plugin = None\<rparr>"
    by (simp_all add: scene_prop_def full_props_def)
  note claim = scene_ready_then_physics_then_xr [of idle_state full_props fair_env, unfolded Let_def]
  from claim have order: "precedes is_scene_ready is_physics ?tr"
    "precedes is_scene_ready is_xr ?tr" "precedes is_physics is_xr ?tr"
    by blast+
  from claim ready have "\<exists>pre post. ?tr = pre @ Scene_new bare_scene # OnSceneReady ''populate'' bare_scene # post"
    by blast
  moreover from claim xr po
  have "(\<exists>g pl. Scene_enablePhysics bare_scene g pl \<in> set ?tr) \<and>
        (plugin \<lparr>gravity = None, plugin = None\<rparr> = None \<longrightarrow> (\<exists>m. HavokPhysics fair_env = Fulfilled m))"
    by blast
  ultimately show ?thesis
    using ready xr cv cb po order by simp
qed

subsection \<open>The root container and the mount\<close>

text \<open>
  Claim C4. The mount builds the root container with exactly the shape
  \<open>{ scene, rootInstance: { hostInstance: scene, metadata: { children: [],
  gui3DManager }, parent: null } }\<close>, where the GUI manager is present if and only if
  the flag \<open>isGui3DManager\<close> (on when it is not given) is on, and then calls the render
  entry point of the reconciler with the children wrapped in the engine/canvas provider
  outermost and the scene/ready/XR provider inside, against that container. The render
  call is the last call of the run and the only call of the reconciler.
\<close>

theorem mount_builds_root_container:
  assumes "initializeScene p env st = (st', Fulfilled Cleanup)"
  shows "\<exists>cv x pre.
     canvasRef st = Some cv \<and>
     (let e = BabylonEngine cv (antialias (engineProps p)) (engineOptions (engineProps p))
                (adaptToDeviceRatio (engineProps p));
          sc = Scene e (scene_prop sceneOptions p);
          gui = (case scene_prop isGui3DManager p of None \<Rightarrow> True | Some flag \<Rightarrow> flag);
          rc = \<lparr>container_scene = sc,
                rootInstance =
                  \<lparr>hostInstance = sc,
                   metadata = \<lparr>metadata_children = [],
                               gui3DManager = (if gui then Some (GUI3DManager sc) else None)\<rparr>,
                   parent = None\<rparr>\<rparr>
      in rootContainerRef st' = Some rc \<and>
         \<not> list_ex is_render pre \<and>
         new_events st st' = pre @
           [Reactylon_render
              (Some (EngineCanvasContext_Provider
                       \<lparr>context_engine = Some e, context_canvas = Some cv\<rparr>
                       (SceneContext_Provider
                          \<lparr>context_scene = Some sc, sceneReady = True, xrExperience = x\<rparr>
                          (Children (children p)))))
              (Some rc)])"
proof -
  from initializeScene_mounted [OF assms] obtain cv x
    where cv: "canvasRef st = Some cv"
      and ph: "snd (enable_physics (scene_prop physicsOptions p) env (new_scene p (new_engine p cv))) = None"
      and xr: "snd (enable_xr (scene_prop xrDefaultExperienceOptions p) env (new_scene p (new_engine p cv))) = Fulfilled x"
      and rc: "rootContainerRef st' =
         Some (new_root_container (with_default True (scene_prop isGui3DManager p)) (new_scene p (new_engine p cv)))"
    by blast
  from initializeScene_events [OF cv, of p env] assms
  obtain A where A: "\<forall>x\<in>set A. stage x = 0" and tr: "new_events st st' = A @ run_events p env cv"
    by auto
  from run_events_mounted [OF ph xr] obtain pre
    where pre: "\<forall>e\<in>set pre. stage e < 6"
      and run: "run_events p env cv = pre @
     [Reactylon_render
        (Some (provider_tree
                 \<lparr>context_engine = Some (new_engine p cv), context_canvas = Some cv\<rparr>
                 \<lparr>context_scene = Some (new_scene p (new_engine p cv)), sceneReady = True, xrExperience = x\<rparr>
                 (children p)))
        (Some (new_root_container (with_default True (scene_prop isGui3DManager p)) (new_scene p (new_engine p cv))))]"
    by blast
  have "\<not> list_ex is_render (A @ pre)"
    by (rule list_ex_render_stage) (use A pre in auto)
  with cv rc tr run show ?thesis
    unfolding Let_def
    by (intro exI [of _ cv] exI [of _ x] exI [of _ "A @ pre"])
       (simp add: new_root_container_def provider_tree_def new_scene_def new_engine_def with_default_def)
qed

theorem mount_builds_root_container_witness:
  "initializeScene bare_props fair_env idle_state = (mounted_state, Fulfilled Cleanup) \<and>
   (\<exists>cv. canvasRef idle_state = Some cv) \<and>
   rootContainerRef mounted_state =
     Some \<lparr>container_scene = bare_scene,
           rootInstance =
             \<lparr>hostInstance = bare_scene,
              metadata = \<lparr>metadata_children = [],
                          gui3DManager = Some (GUI3DManager bare_scene)\<rparr>,
              parent = None\<rparr>\<rparr>"
proof -
  have h: "initializeScene bare_props fair_env idle_state = (mounted_state, Fulfilled Cleanup)"
    by (simp add: mounted_state_def initializeScene_bare)
  have cv: "canvasRef idle_state = Some ''c1''"
    by (simp add: idle_state_def)
  from mount_builds_root_container [OF h] cv h show ?thesis
    by (auto simp: Let_def bare_props_def scene_prop_def bare_scene_def bare_engine_def)
qed

subsection \<open>The published snapshots\<close>

text \<open>
  Claim C5. The XR field of the published scene-context snapshot is non-null only after
  the XR negotiation has resolved, and is null whenever XR options were not supplied;
  in particular, a mount with no scene, physics or XR options publishes the snapshots
  \<open>{engine: <handle>, canvas: <canvas>}\<close> and
  \<open>{scene: <handle>, sceneReady: true, xrExperience: null}\<close>.

  In the trace of a run: a snapshot whose XR field holds \<open>x\<close> is published only when
  XR options were supplied and the negotiation was fulfilled with \<open>x\<close>; every call
  that starts the negotiation comes before every call of the reconciler, and the call of
  the reconciler that publishes such a snapshot has the call that starts the negotiation,
  on the scene of the snapshot and with the options of the props, before it; without XR
  options the field of every published snapshot is null; and with a canvas and no
  \<open>scene\<close> props exactly the one pair of snapshots of the scenario is published.
\<close>

theorem xr_field_of_published_snapshot:
  "let tr = new_events st (fst (initializeScene p env st)) in
     (\<forall>ec sx. (ec, sx) \<in> set (snapshots tr) \<longrightarrow>
        (\<forall>x. xrExperience sx = Some x \<longrightarrow>
           scene_prop xrDefaultExperienceOptions p \<noteq> None \<and>
           createDefaultXRExperienceAsync env = Fulfilled x) \<and>
        (scene_prop xrDefaultExperienceOptions p = None \<longrightarrow> xrExperience sx = None)) \<and>
     precedes is_xr is_render tr \<and>
     (\<forall>pre ev post ec sx x.
        tr = pre @ ev # post \<and> published ev = Some (ec, sx) \<and> xrExperience sx = Some x \<longrightarrow>
        (\<exists>sc xo. context_scene sx = Some sc \<and>
           scene_prop xrDefaultExperienceOptions p = Some xo \<and>
           Scene_createDefaultXRExperienceAsync sc xo \<in> set pre \<and>
           createDefaultXRExperienceAsync env = Fulfilled x)) \<and>
     (\<forall>cv. canvasRef st = Some cv \<and> sceneProps p = None \<longrightarrow>
        snapshots tr =
          [(\<lparr>context_engine = Some (BabylonEngine cv (antialias (engineProps p))
               (engineOptions (engineProps p)) (adaptToDeviceRatio (engineProps p))),
             context_canvas = Some cv\<rparr>,
            \<lparr>context_scene = Some (Scene (BabylonEngine cv (antialias (engineProps p))
               (engineOptions (engineProps p)) (adaptToDeviceRatio (engineProps p))) None),
             sceneReady = True, xrExperience = None\<rparr>)])"
proof -
  define tr where "tr = new_events st (fst (initializeScene p env st))"
  have order: "precedes is_xr is_render tr"
    unfolding tr_def
    by (rule precedes_sorted [OF initializeScene_sorted]) (simp add: is_xr_stage is_render_stage)
  have rest: "(\<forall>ec sx. (ec, sx) \<in> set (snapshots tr) \<longrightarrow>
        (\<forall>x. xrExperience sx = Some x \<longrightarrow>
           scene_prop xrDefaultExperienceOptions p \<noteq> None \<and>
           createDefaultXRExperienceAsync env = Fulfilled x) \<and>
        (scene_prop xrDefaultExperienceOptions p = None \<longrightarrow> xrExperience sx = None)) \<and>
     (\<forall>cv. canvasRef st = Some cv \<and> sceneProps p = None \<longrightarrow>
        snapshots tr =
          [(\<lparr>context_engine = Some (BabylonEngine cv (antialias (engineProps p))
               (engineOptions (engineProps p)) (adaptToDeviceRatio (engineProps p))),
             context_canvas = Some cv\<rparr>,
            \<lparr>context_scene = Some (Scene (BabylonEngine cv (antialias (engineProps p))
               (engineOptions (engineProps p)) (adaptToDeviceRatio (engineProps p))) None),
             sceneReady = True, xrExperience = None\<rparr>)])"
  proof (cases "canvasRef st")
    case None
    then show ?thesis
      by (simp add: tr_def initializeScene_no_canvas new_events_def snapshots_def map_filter_def)
  next
    case (Some cv)
    from initializeScene_events [OF Some, of p env]
    obtain A where A: "\<forall>x\<in>set A. stage x = 0" and tr: "tr = A @ run_events p env cv"
      unfolding tr_def by blast
    from A have "snapshots A = []"
      by (intro snapshots_other) simp
    then have snaps: "snapshots tr = snapshots (run_events p env cv)"
      by (simp add: tr snapshots_append)
    have field: "(\<forall>x. xrExperience sx = Some x \<longrightarrow>
           scene_prop xrDefaultExperienceOptions p \<noteq> None \<and>
           createDefaultXRExperienceAsync env = Fulfilled x) \<and>
        (scene_prop xrDefaultExperienceOptions p = None \<longrightarrow> xrExperience sx = None)"
      if "(ec, sx) \<in> set (snapshots tr)" for ec sx
    proof -
      from that have "snd (enable_xr (scene_prop xrDefaultExperienceOptions p) env
          (new_scene p (new_engine p cv))) = Fulfilled (xrExperience sx)"
        unfolding snaps snapshots_run by (auto split: option.splits settled.splits)
      then show ?thesis
        using enable_xr_value [of "scene_prop xrDefaultExperienceOptions p" env _ ]
          enable_xr_none [of env "new_scene p (new_engine p cv)"]
        by auto
    qed
    have scenario: "snapshots tr =
          [(\<lparr>context_engine = Some (BabylonEngine cv' (antialias (engineProps p))
               (engineOptions (engineProps p)) (adaptToDeviceRatio (engineProps p))),
             context_canvas = Some cv'\<rparr>,
            \<lparr>context_scene = Some (Scene (BabylonEngine cv' (antialias (engineProps p))
               (engineOptions (engineProps p)) (adaptToDeviceRatio (engineProps p))) None),
             sceneReady = True, xrExperience = None\<rparr>)]"
      if "canvasRef st = Some cv'" and none: "sceneProps p = None" for cv'
    proof -
      from that(1) Some have "cv' = cv" by simp
      then show ?thesis
        unfolding snaps snapshots_run
        by (simp add: scene_prop_absent [OF none] enable_physics_def enable_xr_def
              new_scene_def new_engine_def)
    qed
    from field scenario show ?thesis by blast
  qed
  have after: "\<forall>pre ev post ec sx x.
        tr = pre @ ev # post \<and> published ev = Some (ec, sx) \<and> xrExperience sx = Some x \<longrightarrow>
        (\<exists>sc xo. context_scene sx = Some sc \<and>
           scene_prop xrDefaultExperienceOptions p = Some xo \<and>
           Scene_createDefaultXRExperienceAsync sc xo \<in> set pre \<and>
           createDefaultXRExperienceAsync env = Fulfilled x)"
    unfolding tr_def using published_after_negotiation [of st p env] by blast
  from order rest after show ?thesis
    unfolding tr_def Let_def by blast
qed

theorem xr_field_of_published_snapshot_witness:
  "new_events idle_state (fst (initializeScene full_props fair_env idle_state)) =
     butlast (new_events idle_state (fst (initializeScene full_props fair_env idle_state))) @
     last (new_events idle_state (fst (initializeScene full_props fair_env idle_state))) # [] \<and>
   published (last (new_events idle_state (fst (initializeScene full_props fair_env idle_state)))) =
     Some (\<lparr>context_engine = Some bare_engine, context_canvas = Some ''c1''\<rparr>,
           \<lparr>context_scene = Some bare_scene, sceneReady = True, xrExperience = Some ''xr-session''\<rparr>) \<and>
   Scene_createDefaultXRExperienceAsync bare_scene ''xr-options'' \<in>
     set (butlast (new_events idle_state (fst (initializeScene full_props fair_env idle_state)))) \<and>
   snapshots (new_events idle_state (fst (initializeScene full_props fair_env idle_state))) =
     [(\<lparr>context_engine = Some bare_engine, context_canvas = Some ''c1''\<rparr>,
       \<lparr>context_scene = Some bare_scene, sceneReady = True, xrExperience = Some ''xr-session''\<rparr>)] \<and>
   scene_prop xrDefaultExperienceOptions full_props \<noteq> None \<and>
   createDefaultXRExperienceAsync fair_env = Fulfilled ''xr-session'' \<and>
   canvasRef idle_state = Some ''c1'' \<and>
   sceneProps bare_props = None \<and>
   scene_prop xrDefaultExperienceOptions bare_props = None \<and>
   snapshots (new_events idle_state (fst (initializeScene bare_props fair_env idle_state))) =
     [(\<lparr>context_engine = Some bare_engine, context_canvas = Some ''c1''\<rparr>,
       \<lparr>context_scene = Some bare_scene, sceneReady = True, xrExperience = None\<rparr>)]"
proof -
  let ?full = "new_events idle_state (fst (initializeScene full_props fair_env idle_state))"
  have full: "snapshots ?full =
     [(\<lparr>context_engine = Some bare_engine, context_canvas = Some ''c1''\<rparr>,
       \<lparr>context_scene = Some bare_scene, sceneReady = True, xrExperience = Some ''xr-session''\<rparr>)]"
    by (simp add: full_run_trace snapshots_def map_filter_def provider_tree_def)
  then have member: "(\<lparr>context_engine = Some bare_engine, context_canvas = Some ''c1''\<rparr>,
       \<lparr>context_scene = Some bare_scene, sceneReady = True, xrExperience = Some ''xr-session''\<rparr>)
       \<in> set (snapshots ?full)"
    by simp
  have field: "xrExperience \<lparr>context_scene = Some bare_scene, sceneReady = True,
       xrExperience = Some ''xr-session''\<rparr> = Some ''xr-session''"
    by simp
  from xr_field_of_published_snapshot [of idle_state full_props fair_env, unfolded Let_def]
    member field
  have resolved: "scene_prop xrDefaultExperienceOptions full_props \<noteq> None \<and>
     createDefaultXRExperienceAsync fair_env = Fulfilled ''xr-session''"
    by blast
  have cv: "canvasRef idle_state = Some ''c1''"
    by (simp add: idle_state_def)
  have none: "sceneProps bare_props = None"
    by (simp add: bare_props_def)
  have no_xr: "scene_prop xrDefaultExperienceOptions bare_props = None"
    by (simp add: scene_prop_def bare_props_def)
  from xr_field_of_published_snapshot [of idle_state bare_props fair_env, unfolded Let_def]
    cv none
  have "snapshots (new_events idle_state (fst (initializeScene bare_props fair_env idle_state))) =
     [(\<lparr>context_engine = Some (BabylonEngine ''c1'' (antialias (engineProps bare_props))
          (engineOptions (engineProps bare_props)) (adaptToDeviceRatio (engineProps bare_props))),
        context_canvas = Some ''c1''\<rparr>,
       \<lparr>context_scene = Some (Scene (BabylonEngine ''c1'' (antialias (engineProps bare_props))
          (engineOptions (engineProps bare_props)) (adaptToDeviceRatio (engineProps bare_props))) None),
        sceneReady = True, xrExperience = None\<rparr>)]"
    by blast
  then have bare: "snapshots (new_events idle_state (fst (initializeScene bare_props fair_env idle_state))) =
     [(\<lparr>context_engine = Some bare_engine, context_canvas = Some ''c1''\<rparr>,
       \<lparr>context_scene = Some bare_scene, sceneReady = True, xrExperience = None\<rparr>)]"
    by (simp add: bare_props_def bare_engine_def bare_scene_def)
  have split: "?full = butlast ?full @ last ?full # []"
    by (simp add: full_run_trace)
  have pub: "published (last ?full) =
     Some (\<lparr>context_engine = Some bare_engine, context_canvas = Some ''c1''\<rparr>,
           \<lparr>context_scene = Some bare_scene, sceneReady = True, xrExperience = Some ''xr-session''\<rparr>)"
    by (simp add: full_run_trace provider_tree_def)
  from xr_field_of_published_snapshot [of idle_state full_props fair_env, unfolded Let_def]
    split pub field
  have "\<exists>sc xo. context_scene \<lparr>context_scene = Some bare_scene, sceneReady = True,
            xrExperience = Some ''xr-session''\<rparr> = Some sc \<and>
          scene_prop xrDefaultExperienceOptions full_props = Some xo \<and>
          Scene_createDefaultXRExperienceAsync sc xo \<in> set (butlast ?full) \<and>
          createDefaultXRExperienceAsync fair_env = Fulfilled ''xr-session''"
    by blast
  then have call: "Scene_createDefaultXRExperienceAsync bare_scene ''xr-options'' \<in> set (butlast ?full)"
    by (auto simp: scene_prop_def full_props_def)
  from split pub call full resolved cv none no_xr bare show ?thesis
    by blast
qed

subsection \<open>Physics\<close>

text \<open>
  Claim C6. Whenever physics options are supplied, physics is enabled on the scene with
  the supplied gravity vector if one is given and the default \<open>(0, -9.8, 0)\<close>
  otherwise, and with the supplied plugin if one is given and otherwise with the named
  (Havok) plugin, whose native module is loaded from a remote location before use.

  With a canvas and physics options, and the load of the module fulfilled with \<open>m\<close>
  when it is needed, the physics calls of the run are exactly: \<open>enablePhysics\<close> with
  the supplied plugin; or the request of the module, with \<open>locateFile\<close> pointing to the
  remote location, followed by \<open>enablePhysics\<close> with \<open>new HavokPlugin(true, m)\<close>.
\<close>

theorem physics_enabled_with_defaults:
  assumes "canvasRef st = Some cv"
    and "scene_prop physicsOptions p = Some po"
    and "plugin po = None \<longrightarrow> HavokPhysics env = Fulfilled m"
  shows "let sc = Scene (BabylonEngine cv (antialias (engineProps p)) (engineOptions (engineProps p))
                    (adaptToDeviceRatio (engineProps p))) (scene_prop sceneOptions p);
             g = (case gravity po of Some v \<Rightarrow> v | None \<Rightarrow> Vector3 0 (- 9.8) 0)
         in filter is_physics (new_events st (fst (initializeScene p env st))) =
              (case plugin po of
                 Some pl \<Rightarrow> [Scene_enablePhysics sc g pl]
               | None \<Rightarrow> [HavokPhysics_call locateFile, Scene_enablePhysics sc g (HavokPlugin True m)])"
  using assms(2,3)
  by (simp add: filter_physics_initializeScene [OF assms(1)] enable_physics_def Let_def
        new_scene_def new_engine_def with_default_def defaultGravity_def
        split: option.split)

theorem physics_enabled_with_defaults_witness:
  "canvasRef idle_state = Some ''c1'' \<and>
   scene_prop physicsOptions full_props = Some \<lparr>gravity = None, plugin = None\<rparr> \<and>
   HavokPhysics fair_env = Fulfilled ''havok-wasm'' \<and>
   filter is_physics (new_events idle_state (fst (initializeScene full_props fair_env idle_state))) =
     [HavokPhysics_call locateFile,
      Scene_enablePhysics bare_scene (Vector3 0 (- 9.8) 0) (HavokPlugin True ''havok-wasm'')] \<and>
   locateFile ''HavokPhysics.wasm'' = ''https://preview.babylonjs.com/havok/HavokPhysics.wasm''"
proof -
  have cv: "canvasRef idle_state = Some ''c1''"
    by (simp add: idle_state_def)
  have po: "scene_prop physicsOptions full_props = Some \<lparr>gravity = None, plugin = None\<rparr>"
    by (simp add: scene_prop_def full_props_def)
  have m: "HavokPhysics fair_env = Fulfilled ''havok-wasm''"
    by (simp add: fair_env_def)
  then have load: "plugin \<lparr>gravity = None, plugin = None\<rparr> = None \<longrightarrow>
      HavokPhysics fair_env = Fulfilled ''havok-wasm''"
    by simp
  from physics_enabled_with_defaults [OF cv po load] cv po m show ?thesis
    by (simp add: Let_def full_props_def scene_prop_def bare_scene_def bare_engine_def locateFile_def)
qed

text \<open>
  Claim C7. When physics options are omitted from the configuration, initialization
  neither requests the physics module nor calls the scene's \<open>enablePhysics\<close>: the run
  makes no physics call at all.
\<close>

theorem no_physics_options_no_physics_calls:
  assumes "scene_prop physicsOptions p = None"
  shows "filter is_physics (new_events st (fst (initializeScene p env st))) = []"
proof (cases "canvasRef st")
  case None
  then show ?thesis by (simp add: initializeScene_no_canvas new_events_def)
next
  case (Some cv)
  show ?thesis
    by (simp add: filter_physics_initializeScene [OF Some] assms enable_physics_def)
qed

theorem no_physics_options_no_physics_calls_witness:
  "scene_prop physicsOptions bare_props = None \<and>
   filter is_physics (new_events idle_state (fst (initializeScene bare_props fair_env idle_state))) = []"
proof -
  have h: "scene_prop physicsOptions bare_props = None"
    by (simp add: scene_prop_def bare_props_def)
  from no_physics_options_no_physics_calls [OF h] h show ?thesis
    by simp
qed

subsection \<open>No canvas\<close>

text \<open>
  Claim C8. If no canvas element is available when initialization is triggered,
  initialization is silently skipped: no engine, scene or root container is created, no
  error is raised, and nothing is reported to the caller. The state (the refs and the
  trace) is the one before, the promise is fulfilled with \<open>undefined\<close>, and the effect
  returns nothing.
\<close>

theorem no_canvas_skips_initialization:
  "canvasRef st = None \<Longrightarrow>
     initializeScene p env st = (st, Fulfilled Undefined) \<and>
     new_events st (fst (initializeScene p env st)) = [] \<and>
     effect_callback p env st = (st, None)"
  by (simp add: initializeScene_no_canvas new_events_def effect_callback_def)

theorem no_canvas_skips_initialization_witness:
  "canvasRef detached_state = None \<and>
   initializeScene full_props fair_env detached_state = (detached_state, Fulfilled Undefined) \<and>
   new_events detached_state (fst (initializeScene full_props fair_env detached_state)) = [] \<and>
   effect_callback full_props fair_env detached_state = (detached_state, None)"
proof -
  have h: "canvasRef detached_state = None"
    by (simp add: detached_state_def)
  from no_canvas_skips_initialization [OF h, of full_props fair_env] h show ?thesis
    by blast
qed

subsection \<open>Parameter-name recovery\<close>

text \<open>
  Claim C9, as amended. For every source that acorn parses to a function declaration, a
  function expression or a class with a constructor, and whose parameter list holds a
  parameter whose own node type \<open>traverse\<close> does not recognise (none of
  \<open>Identifier\<close>, \<open>AssignmentPattern\<close>, \<open>RestElement\<close>), the extraction logs a
  diagnostic, yields a null placeholder for that parameter, and still returns a result
  for the remaining parameters instead of failing as a whole.

  Such a parameter is one that reaches the last branch of
  \<open>traverse\<close> (\<open>unknown_parameter_type\<close>). For the parameter list \<open>ps @ q # qs\<close>
  of a function declaration, a function expression or the constructor of a class:
  \<open>traverse\<close> returns the names of \<open>ps\<close>, then \<open>null\<close>, then the names of
  \<open>qs\<close>; the console gets the message \<open>Unknown parameter type: \<close> with the type of
  \<open>q\<close> between the messages of \<open>ps\<close> and those of \<open>qs\<close>; and
  \<open>getFunctionParams\<close> and \<open>getClassConstructorParams\<close> return the names they
  return without \<open>q\<close>.
\<close>

theorem unknown_parameter_yields_placeholder:
  assumes "unknown_parameter_type q"
  shows "let params = ps @ q # qs;
             names = fst (map_params ps []) @ None # fst (map_params qs []);
             warned = con @ snd (map_params ps []) @
                      (''Unknown parameter type: '' @ pattern_type q) # snd (map_params qs [])
         in traverse (FunctionDeclaration params) con = (Some names, warned) \<and>
            traverse (FunctionExpression params) con = (Some names, warned) \<and>
            getFunctionParams (FunctionDeclaration params # rest) con =
              (Inr (remove_nulls (Some (fst (map_params ps []) @ fst (map_params qs [])))), warned) \<and>
            fst (getFunctionParams (FunctionDeclaration params # rest) con) =
              fst (getFunctionParams (FunctionDeclaration (ps @ qs) # rest) con) \<and>
            (\<forall>members k. find_constructor members = Some (MethodDefinition k (FunctionExpression params)) \<longrightarrow>
               getClassConstructorParams (ClassDeclaration members # rest) con =
                 (Inr (remove_nulls (Some (fst (map_params ps []) @ fst (map_params qs [])))), warned))"
  unfolding Let_def
  by (simp add: map_params_unknown [OF assms] getFunctionParams_def getClassConstructorParams_def
        remove_nulls_placeholder map_params_append [of ps qs])

theorem unknown_parameter_yields_placeholder_witness:
  "unknown_parameter_type ObjectPattern \<and>
   traverse (FunctionDeclaration [Identifier ''a'', ObjectPattern, RestElement (Identifier ''rest'')]) [] =
     (Some [Some ''a'', None, Some ''rest''], [''Unknown parameter type: ObjectPattern'']) \<and>
   getFunctionParams
     [FunctionDeclaration [Identifier ''a'', ObjectPattern, RestElement (Identifier ''rest'')]] [] =
     (Inr [''a'', ''rest''], [''Unknown parameter type: ObjectPattern'']) \<and>
   find_constructor
     [MethodDefinition Constructor
        (FunctionExpression [Identifier ''a'', ObjectPattern, RestElement (Identifier ''rest'')])] =
     Some (MethodDefinition Constructor
        (FunctionExpression [Identifier ''a'', ObjectPattern, RestElement (Identifier ''rest'')])) \<and>
   getClassConstructorParams
     [ClassDeclaration [MethodDefinition Constructor
        (FunctionExpression [Identifier ''a'', ObjectPattern, RestElement (Identifier ''rest'')])]] [] =
     (Inr [''a'', ''rest''], [''Unknown parameter type: ObjectPattern''])"
proof -
  have h: "unknown_parameter_type ObjectPattern"
    by simp
  have ctor: "find_constructor
     [MethodDefinition Constructor
        (FunctionExpression ([Identifier ''a''] @ ObjectPattern # [RestElement (Identifier ''rest'')]))] =
     Some (MethodDefinition Constructor
        (FunctionExpression ([Identifier ''a''] @ ObjectPattern # [RestElement (Identifier ''rest'')])))"
    by simp
  note claim = unknown_parameter_yields_placeholder [OF h,
      of "[Identifier ''a'']" "[RestElement (Identifier ''rest'')]" "[]" "[]", unfolded Let_def]
  from claim have "traverse (FunctionDeclaration ([Identifier ''a''] @ ObjectPattern # [RestElement (Identifier ''rest'')])) [] =
     (Some [Some ''a'', None, Some ''rest''], [''Unknown parameter type: ObjectPattern''])"
    by simp
  moreover from claim have "getFunctionParams
     [FunctionDeclaration ([Identifier ''a''] @ ObjectPattern # [RestElement (Identifier ''rest'')])] [] =
     (Inr [''a'', ''rest''], [''Unknown parameter type: ObjectPattern''])"
    by (simp add: remove_nulls_def)
  moreover from claim ctor have "getClassConstructorParams
     [ClassDeclaration [MethodDefinition Constructor
        (FunctionExpression ([Identifier ''a''] @ ObjectPattern # [RestElement (Identifier ''rest'')]))]] [] =
     (Inr [''a'', ''rest''], [''Unknown parameter type: ObjectPattern''])"
    by (simp add: remove_nulls_def)
  ultimately show ?thesis
    using h ctor by simp
qed

text \<open>
  The claim as written, for every function source and every unrecognised shape, fails
  where the code by design gives up without a message. In \<open>function f(a, {b} = {}) {}\<close>
  the pattern under the default value is not recognised
  (\<open>getDestructuredParameterName\<close> returns \<open>null\<close>), and in
  \<open>function f(a, ...[b, c]) {}\<close> the pattern under the rest element is not
  (\<open>getRestParameterName\<close> returns \<open>null\<close>): each gives the null placeholder and
  writes nothing to the console. The source of an arrow function such as
  \<open>({b}, c) => 0\<close> is parsed to an expression statement, which \<open>traverse\<close> does not
  take for a function: the result is the empty list, the name \<open>c\<close> is not returned,
  and nothing is written to the console.
\<close>

theorem unrecognised_shape_without_diagnostic_counterexample:
  "traverse (FunctionDeclaration [Identifier ''a'', AssignmentPattern ObjectPattern]) [] =
     (Some [Some ''a'', None], []) \<and>
   getFunctionParams [FunctionDeclaration [Identifier ''a'', AssignmentPattern ObjectPattern]] [] =
     (Inr [''a''], []) \<and>
   traverse (FunctionDeclaration [Identifier ''a'', RestElement ArrayPattern]) [] =
     (Some [Some ''a'', None], []) \<and>
   getFunctionParams [FunctionDeclaration [Identifier ''a'', RestElement ArrayPattern]] [] =
     (Inr [''a''], []) \<and>
   getFunctionParams [OtherNode] [] = (Inr [], [])"
  by (simp add: getFunctionParams_def remove_nulls_def)

text \<open>
  Claim C10. For every class whose source has no explicit constructor method,
  \<open>getClassConstructorParams\<close> throws: the search for a constructor
  \<open>MethodDefinition\<close> finds nothing, and \<open>value\<close> is read of the \<open>undefined\<close> it
  returns. It does not return an empty parameter list, and writes nothing to the console.
\<close>

theorem no_constructor_throws:
  "\<not> has_explicit_constructor members \<Longrightarrow>
     getClassConstructorParams (ClassDeclaration members # rest) con = (Inl TypeError, con)"
  by (simp add: getClassConstructorParams_def find_constructor_None [symmetric])

theorem no_constructor_throws_witness:
  "\<not> has_explicit_constructor [MethodDefinition Method (FunctionExpression [Identifier ''x''])] \<and>
   getClassConstructorParams
     [ClassDeclaration [MethodDefinition Method (FunctionExpression [Identifier ''x''])]] [] =
     (Inl TypeError, [])"
proof -
  have h: "\<not> has_explicit_constructor [MethodDefinition Method (FunctionExpression [Identifier ''x''])]"
    by (simp add: has_explicit_constructor_def)
  from no_constructor_throws [OF h] h show ?thesis by simp
qed

end
